theory Spec2Isabelle
  imports Main "HOL-Library.Sublist"
begin

section \<open>The RedHat provisioner of libmachine (libmachine/provision/redhat.go)\<close>

text \<open>
  The provisioner drives a freshly created machine over a remote command channel.  Every
  Go function of the file becomes a HOL function.  The receiver \<open>*RedHatProvisioner\<close> is
  passed in and returned updated; a Go result \<open>error\<close> is an \<open>error option\<close> (\<open>None\<close> is
  \<open>nil\<close>), a result \<open>(T, error)\<close> is \<open>error + T\<close>.  Everything outside the file (the driver,
  the SSH client, the helpers of the package that live in other files, the template
  library) is a field of the record \<open>env\<close>, so every theorem holds for all of them.
\<close>

subsection \<open>Errors\<close>

datatype error =
    ErrUnknownYumOsRelease
  | ReadinessTimeout
  | ExternalError string

definition errorOf :: "error + 'a \<Rightarrow> error option" where
  "errorOf r = (case r of Inl err \<Rightarrow> Some err | Inr _ \<Rightarrow> None)"

subsection \<open>Option structures\<close>

text \<open>Only the fields that redhat.go reads are kept.\<close>

record engine_EngineOptions =
  StorageDriver :: string
  Labels :: "string list"
  InsecureRegistry :: "string list"
  RegistryMirror :: "string list"
  ArbitraryFlags :: "string list"
  Env :: "string list"

record auth_AuthOptions =
  CaCertRemotePath :: string
  ServerCertRemotePath :: string
  ServerKeyRemotePath :: string

record provision_OsRelease =
  OsRelease_Id :: string
  OsRelease_Version :: string

record PackageListInfo =
  OsRelease :: string
  OsReleaseVersion :: string

record EngineConfigContext =
  DockerPort :: int
  ctx_AuthOptions :: auth_AuthOptions
  ctx_EngineOptions :: engine_EngineOptions
  ctx_DockerOptionsDir :: string

record DockerOptions =
  opts_EngineOptions :: string
  opts_EngineOptionsPath :: string

datatype PackageAction = Install | Remove | Upgrade

datatype ServiceAction = Restart | Start | Stop | Enable | Disable

subsection \<open>The command channel\<close>

text \<open>
  \<open>SSHCommand\<close> asks the driver for a client and runs the command with it.  A call that
  reaches the remote host is recorded in the \<open>trace\<close> of the provisioner state, in the
  order of issue; what the host answers is decided by the environment from the calls made
  so far and the present call.
\<close>

datatype ssh_client =
    ExternalClient (BaseArgs: "string list")
  | NativeClient
  | OtherClient

datatype ssh_call =
    Output ssh_client string
  | OutputWithPty ssh_client string

fun command_of :: "ssh_call \<Rightarrow> string" where
  "command_of (Output _ args) = args"
| "command_of (OutputWithPty _ args) = args"

record 'sw RedHatProvisioner =
  DockerOptionsDir :: string
  DaemonOptionsFile :: string
  OsReleaseId :: string
  Packages :: "string list"
  SwarmOptions :: 'sw
  AuthOptions :: auth_AuthOptions
  EngineOptions :: engine_EngineOptions
  trace :: "ssh_call list"

record 'sw env =
  SSHSudo :: "string \<Rightarrow> string"
  GetMachineName :: string
  DriverName :: string
  GetSSHClientFromDriver :: "ssh_call list \<Rightarrow> error + ssh_client"
  ssh_result :: "ssh_call list \<Rightarrow> ssh_call \<Rightarrow> error + string"
  GetOsReleaseInfo :: "'sw RedHatProvisioner \<Rightarrow> error + provision_OsRelease"
  template_Parse :: "string \<Rightarrow> string \<Rightarrow> error option"
  template_Execute_fault :: "string \<Rightarrow> (nat \<times> error) option"
  WaitFor_retries :: nat
  makeDockerOptionsDir :: "'sw RedHatProvisioner \<Rightarrow> error option \<times> 'sw RedHatProvisioner"
  setRemoteAuthOptions :: "'sw RedHatProvisioner \<Rightarrow> auth_AuthOptions"
  ConfigureAuth :: "'sw RedHatProvisioner \<Rightarrow> error option \<times> 'sw RedHatProvisioner"
  configureSwarm :: "'sw RedHatProvisioner \<Rightarrow> 'sw \<Rightarrow> auth_AuthOptions \<Rightarrow>
                       error option \<times> 'sw RedHatProvisioner"

text \<open>
  \<open>NewRedHatProvisioner\<close> (lines 51-63): the fields it does not name hold Go's zero
  values; the zero value of the swarm options, whose type is declared elsewhere, is an
  argument.
\<close>

definition NewRedHatProvisioner :: "'sw \<Rightarrow> 'sw RedHatProvisioner" where
  "NewRedHatProvisioner sw0 =
     \<lparr> DockerOptionsDir = ''/etc/docker'',
       DaemonOptionsFile = ''/etc/systemd/system/docker.service'',
       OsReleaseId = ''rhel'',
       Packages = [''curl''],
       SwarmOptions = sw0,
       AuthOptions = \<lparr> CaCertRemotePath = [], ServerCertRemotePath = [],
                       ServerKeyRemotePath = [] \<rparr>,
       EngineOptions = \<lparr> StorageDriver = [], Labels = [], InsecureRegistry = [],
                         RegistryMirror = [], ArbitraryFlags = [], Env = [] \<rparr>,
       trace = [] \<rparr>"

text \<open>\<open>SSHCommand\<close> (lines 69-88); \<open>client_call\<close> is its switch on the type of the client.\<close>

definition client_call :: "ssh_client \<Rightarrow> string \<Rightarrow> ssh_call" where
  "client_call client args =
     (case client of
        ExternalClient baseArgs \<Rightarrow> Output (ExternalClient (baseArgs @ [''-tt''])) args
      | NativeClient \<Rightarrow> OutputWithPty NativeClient args
      | OtherClient \<Rightarrow> Output OtherClient args)"

definition SSHCommand ::
  "'sw env \<Rightarrow> string \<Rightarrow> 'sw RedHatProvisioner \<Rightarrow> (error + string) \<times> 'sw RedHatProvisioner"
where
  "SSHCommand e args p =
     (case GetSSHClientFromDriver e (trace p) of
        Inl err \<Rightarrow> (Inl err, p)
      | Inr client \<Rightarrow>
          (ssh_result e (trace p) (client_call client args),
           p\<lparr>trace := trace p @ [client_call client args]\<rparr>))"

text \<open>
  \<open>issued p p1 commands\<close>: the state \<open>p1\<close> is \<open>p\<close> with exactly the calls for \<open>commands\<close>
  added to the end of the trace, and nothing else changed.
\<close>

definition issued :: "'sw RedHatProvisioner \<Rightarrow> 'sw RedHatProvisioner \<Rightarrow> string list \<Rightarrow> bool" where
  "issued p p1 commands =
     (\<exists>calls. p1 = p\<lparr>trace := trace p @ calls\<rparr> \<and> map command_of calls = commands)"

subsection \<open>Go's string formatting\<close>

text \<open>
  \<open>strconv.Quote\<close>, which the verb \<open>%q\<close> applies to a string: a double-quoted Go literal.
  Bytes from 0x80 on are copied, as Go does for the printable runes of a valid UTF-8
  string; Go's escapes for invalid UTF-8 and for unprintable non-ASCII runes are not
  modelled.
\<close>

definition hexdigit :: "nat \<Rightarrow> char" where
  "hexdigit n = ''0123456789abcdef'' ! (n mod 16)"

definition quoteChar :: "char \<Rightarrow> string" where
  "quoteChar c =
     (if c = CHR 0x22 then [CHR 0x5C, CHR 0x22]
      else if c = CHR 0x5C then [CHR 0x5C, CHR 0x5C]
      else if c = CHR 0x07 then [CHR 0x5C, CHR ''a'']
      else if c = CHR 0x08 then [CHR 0x5C, CHR ''b'']
      else if c = CHR 0x0C then [CHR 0x5C, CHR ''f'']
      else if c = CHR 0x0A then [CHR 0x5C, CHR ''n'']
      else if c = CHR 0x0D then [CHR 0x5C, CHR ''r'']
      else if c = CHR 0x09 then [CHR 0x5C, CHR ''t'']
      else if c = CHR 0x0B then [CHR 0x5C, CHR ''v'']
      else if (of_char c :: nat) < 32 \<or> (of_char c :: nat) = 127
        then [CHR 0x5C, CHR ''x'', hexdigit (of_char c div 16), hexdigit (of_char c)]
      else [c])"

definition Quote :: "string \<Rightarrow> string" where
  "Quote s = CHR 0x22 # concat (map quoteChar s) @ [CHR 0x22]"

text \<open>
  \<open>fmt.Sprintf\<close> on string operands, for formats whose verbs are a single character after
  the percent sign (the file uses \<open>%s\<close> and \<open>%q\<close>; flags, widths and the verbs \<open>%x\<close>, \<open>%X\<close>,
  \<open>%T\<close>, \<open>%p\<close> are not modelled).  A verb that does not apply to a string, a missing
  operand and operands left over give Go's bracketed diagnostics.
\<close>

definition fmtVerb :: "char \<Rightarrow> string \<Rightarrow> string" where
  "fmtVerb v a =
     (if v = CHR ''s'' \<or> v = CHR ''v'' then a
      else if v = CHR ''q'' then Quote a
      else ''%!'' @ [v] @ ''(string='' @ a @ '')'')"

fun extraOperands :: "string list \<Rightarrow> string" where
  "extraOperands [] = []"
| "extraOperands [a] = ''string='' @ a"
| "extraOperands (a # b # as) = ''string='' @ a @ '', '' @ extraOperands (b # as)"

fun Sprintf :: "string \<Rightarrow> string list \<Rightarrow> string" where
  "Sprintf [] [] = []"
| "Sprintf [] (a # as) = ''%!(EXTRA '' @ extraOperands (a # as) @ '')''"
| "Sprintf [c] as = (if c = CHR ''%'' then ''%!(NOVERB)'' @ Sprintf [] as else c # Sprintf [] as)"
| "Sprintf (c # v # fs) as =
     (if c \<noteq> CHR ''%'' then c # Sprintf (v # fs) as
      else if v = CHR ''%'' then CHR ''%'' # Sprintf fs as
      else (case as of
              [] \<Rightarrow> ''%!'' @ [v] @ ''(MISSING)'' @ Sprintf fs []
            | a # as' \<Rightarrow> fmtVerb v a @ Sprintf fs as'))"

text \<open>Decimal printing of an \<open>int\<close>, as \<open>{{.DockerPort}}\<close> prints it.\<close>

fun digits :: "nat \<Rightarrow> string" where
  "digits n = (if n < 10 then [char_of (48 + n)] else digits (n div 10) @ [char_of (48 + n mod 10)])"

declare digits.simps [simp del]

definition itoa :: "int \<Rightarrow> string" where
  "itoa i = (if i < 0 then CHR ''-'' # digits (nat (- i)) else digits (nat i))"

subsection \<open>Packages and services\<close>

text \<open>The switch of \<open>Package\<close> (lines 150-159).\<close>

fun packageAction :: "PackageAction \<Rightarrow> string" where
  "packageAction Install = ''install''"
| "packageAction Remove = ''remove''"
| "packageAction Upgrade = ''upgrade''"

text \<open>
  Modelled from the spec: \<open>ServiceAction.String\<close> is declared in the package
  \<open>serviceaction\<close>, outside this file.  The spec lists the service actions
  start/stop/restart/enable/disable, "each mapped deterministically to a command string";
  the command string of an action is its name.
\<close>

fun ServiceAction_String :: "ServiceAction \<Rightarrow> string" where
  "ServiceAction_String Restart = ''restart''"
| "ServiceAction_String Start = ''start''"
| "ServiceAction_String Stop = ''stop''"
| "ServiceAction_String Enable = ''enable''"
| "ServiceAction_String Disable = ''disable''"

text \<open>\<open>Package\<close> (lines 149-169).\<close>

definition Package ::
  "'sw env \<Rightarrow> string \<Rightarrow> PackageAction \<Rightarrow> 'sw RedHatProvisioner \<Rightarrow>
     error option \<times> 'sw RedHatProvisioner"
where
  "Package e name action p =
     (let yum_command = SSHSudo e ''yum %s -y %s'';
          command = Sprintf yum_command [packageAction action, name]
      in case SSHCommand e command p of
           (r, p1) \<Rightarrow> (case errorOf r of Some err \<Rightarrow> (Some err, p1) | None \<Rightarrow> (None, p1)))"

text \<open>\<open>Service\<close> (lines 122-147).\<close>

definition reloadDaemon :: "ServiceAction \<Rightarrow> bool" where
  "reloadDaemon action = (case action of Start \<Rightarrow> True | Restart \<Rightarrow> True | _ \<Rightarrow> False)"

definition Service ::
  "'sw env \<Rightarrow> string \<Rightarrow> ServiceAction \<Rightarrow> 'sw RedHatProvisioner \<Rightarrow>
     error option \<times> 'sw RedHatProvisioner"
where
  "Service e name action p =
     (case (if reloadDaemon action
            then (let reload_command = SSHSudo e ''systemctl daemon-reload''
                  in case SSHCommand e reload_command p of (r, p1) \<Rightarrow> (errorOf r, p1))
            else (None, p)) of
        (Some err, p1) \<Rightarrow> (Some err, p1)
      | (None, p1) \<Rightarrow>
          (let systemctl_command = SSHSudo e ''systemctl %s %s'';
               command = Sprintf systemctl_command [ServiceAction_String action, name]
           in case SSHCommand e command p1 of
                (r, p2) \<Rightarrow> (case errorOf r of Some err \<Rightarrow> (Some err, p2) | None \<Rightarrow> (None, p2))))"

subsection \<open>The yum repository file\<close>

text \<open>
  The template library is outside the repository.  \<open>Parse\<close> of a template answers with
  an error or not (\<open>template_Parse\<close>, by template name and text).  \<open>generateYumRepoList\<close>
  has a branch for an error of \<open>Execute\<close>; for that branch \<open>Execute\<close> either completes, or
  stops with an error after some bytes were written (\<open>template_Execute_fault\<close>).
\<close>

definition template_Execute :: "'sw env \<Rightarrow> string \<Rightarrow> string \<Rightarrow> string \<times> error option" where
  "template_Execute e name rendering =
     (case template_Execute_fault e name of
        None \<Rightarrow> (rendering, None)
      | Some (k, err) \<Rightarrow> (take k rendering, Some err))"

text \<open>\<open>packageListTemplate\<close> (lines 23-29) and what it renders to.\<close>

definition packageListTemplate :: string where
  "packageListTemplate =
     ''[docker]\<newline>'' @
     ''name=Docker Stable Repository\<newline>'' @
     ''baseurl=https://yum.dockerproject.org/repo/main/{{.OsRelease}}/{{.OsReleaseVersion}}\<newline>'' @
     ''priority=1\<newline>'' @
     ''enabled=1\<newline>'' @
     ''gpgkey=https://yum.dockerproject.org/gpg\<newline>''"

definition render_packageList :: "PackageListInfo \<Rightarrow> string" where
  "render_packageList info =
     ''[docker]\<newline>'' @
     ''name=Docker Stable Repository\<newline>'' @
     ''baseurl=https://yum.dockerproject.org/repo/main/'' @ OsRelease info @ ''/'' @
        OsReleaseVersion info @ ''\<newline>'' @
     ''priority=1\<newline>'' @
     ''enabled=1\<newline>'' @
     ''gpgkey=https://yum.dockerproject.org/gpg\<newline>''"

text \<open>The switch on \<open>releaseInfo.Id\<close> (lines 299, 306-316).\<close>

definition packageListInfo_of :: "string \<Rightarrow> error + PackageListInfo" where
  "packageListInfo_of releaseId =
     (if releaseId = ''rhel'' \<or> releaseId = ''centos''
        then Inr \<lparr> OsRelease = ''centos'', OsReleaseVersion = ''7'' \<rparr>
      else if releaseId = ''fedora''
        then Inr \<lparr> OsRelease = ''fedora'', OsReleaseVersion = ''22'' \<rparr>
      else Inl ErrUnknownYumOsRelease)"

text \<open>\<open>generateYumRepoList\<close> (lines 298-330).\<close>

definition generateYumRepoList :: "'sw env \<Rightarrow> 'sw RedHatProvisioner \<Rightarrow> error + string" where
  "generateYumRepoList e p =
     (case GetOsReleaseInfo e p of
        Inl err \<Rightarrow> Inl err
      | Inr releaseInfo \<Rightarrow>
          (case packageListInfo_of (OsRelease_Id releaseInfo) of
             Inl err \<Rightarrow> Inl err
           | Inr packageListInfo \<Rightarrow>
               (case template_Parse e ''packageList'' packageListTemplate of
                  Some err \<Rightarrow> Inl err
                | None \<Rightarrow>
                    (case template_Execute e ''packageList'' (render_packageList packageListInfo) of
                       (buf, Some err) \<Rightarrow> Inl err
                     | (buf, None) \<Rightarrow> Inr buf))))"

text \<open>\<open>ConfigurePackageList\<close> (lines 332-347).\<close>

definition ConfigurePackageList ::
  "'sw env \<Rightarrow> 'sw RedHatProvisioner \<Rightarrow> error option \<times> 'sw RedHatProvisioner"
where
  "ConfigurePackageList e p =
     (case generateYumRepoList e p of
        Inl err \<Rightarrow> (Some err, p)
      | Inr buf \<Rightarrow>
          (let packageCmd =
                 SSHSudo e (''sh -c 'echo %q | sudo tee /etc/yum.repos.d/docker.repo'' @ [CHR 0x27]);
               packageCmd = Sprintf packageCmd [buf]
           in case SSHCommand e packageCmd p of
                (r, p1) \<Rightarrow> (case errorOf r of Some err \<Rightarrow> (Some err, p1) | None \<Rightarrow> (None, p1))))"

subsection \<open>The hostname\<close>

text \<open>\<open>SetHostname\<close> (lines 90-120).\<close>

definition SetHostname ::
  "'sw env \<Rightarrow> string \<Rightarrow> 'sw RedHatProvisioner \<Rightarrow> error option \<times> 'sw RedHatProvisioner"
where
  \<open>SetHostname e hostname p =
     (let command = ''sh -c 'hostname %s && echo %q | tee /etc/hostname'' @ [CHR 0x27];
          command = SSHSudo e command
      in case SSHCommand e (Sprintf command [hostname, hostname]) p of
           (r, p1) \<Rightarrow>
             (case errorOf r of
                Some err \<Rightarrow> (Some err, p1)
              | None \<Rightarrow>
                  (let if_then = ''sh -c "sed -i 's/^127.0.1.1.*/127.0.1.1 %s/g' /etc/hosts"'';
                       if_else = ''sh -c "echo '127.0.1.1 %s' | tee -a /etc/hosts"'';
                       if_then = SSHSudo e if_then;
                       if_else = SSHSudo e if_else;
                       command = Sprintf ''if grep -xq 127.0.1.1.* /etc/hosts; then %s; else %s; fi''
                                   [if_then, if_else]
                   in case SSHCommand e (Sprintf command [hostname, hostname]) p1 of
                        (r, p2) \<Rightarrow>
                          (case errorOf r of
                             Some err \<Rightarrow> (Some err, p2)
                           | None \<Rightarrow> (None, p2)))))\<close>

subsection \<open>Installing the engine\<close>

text \<open>\<open>installOfficialDocker\<close> (lines 187-200).\<close>

definition installOfficialDocker ::
  "'sw env \<Rightarrow> 'sw RedHatProvisioner \<Rightarrow> error option \<times> 'sw RedHatProvisioner"
where
  "installOfficialDocker e p =
     (case ConfigurePackageList e p of
        (Some err, p1) \<Rightarrow> (Some err, p1)
      | (None, p1) \<Rightarrow>
          (let engine_install_command = SSHSudo e ''yum install -y docker-engine''
           in case SSHCommand e engine_install_command p1 of
                (r, p2) \<Rightarrow> (case errorOf r of Some err \<Rightarrow> (Some err, p2) | None \<Rightarrow> (None, p2))))"

text \<open>\<open>installDocker\<close> (lines 171-185).\<close>

definition installDocker ::
  "'sw env \<Rightarrow> 'sw RedHatProvisioner \<Rightarrow> error option \<times> 'sw RedHatProvisioner"
where
  "installDocker e p =
     (case installOfficialDocker e p of
        (Some err, p1) \<Rightarrow> (Some err, p1)
      | (None, p1) \<Rightarrow>
          (case Service e ''docker'' Restart p1 of
             (Some err, p2) \<Rightarrow> (Some err, p2)
           | (None, p2) \<Rightarrow>
               (case Service e ''docker'' Enable p2 of
                  (Some err, p3) \<Rightarrow> (Some err, p3)
                | (None, p3) \<Rightarrow> (None, p3))))"

text \<open>\<open>dockerDaemonResponding\<close> (lines 202-211); the log line is not modelled.\<close>

definition dockerDaemonResponding ::
  "'sw env \<Rightarrow> 'sw RedHatProvisioner \<Rightarrow> bool \<times> 'sw RedHatProvisioner"
where
  "dockerDaemonResponding e p =
     (let docker_version_command = SSHSudo e ''docker version''
      in case SSHCommand e docker_version_command p of
           (r, p1) \<Rightarrow> (case errorOf r of Some err \<Rightarrow> (False, p1) | None \<Rightarrow> (True, p1)))"

text \<open>
  Modelled from the spec: \<open>mcnutils.WaitFor\<close> is in another package of the repository.
  The spec (4.6): it "invokes the probe; if false, sleeps a fixed interval and retries;
  terminates successfully on first true result; terminates with a timeout error after a
  bounded total elapsed duration", and issues at least one probe call.  The bound is the
  number \<open>WaitFor_retries\<close> of probe calls after the first; time is not modelled.
\<close>

fun WaitFor_loop :: "nat \<Rightarrow> ('s \<Rightarrow> bool \<times> 's) \<Rightarrow> 's \<Rightarrow> error option \<times> 's" where
  "WaitFor_loop 0 probe s =
     (case probe s of (True, s1) \<Rightarrow> (None, s1) | (False, s1) \<Rightarrow> (Some ReadinessTimeout, s1))"
| "WaitFor_loop (Suc n) probe s =
     (case probe s of (True, s1) \<Rightarrow> (None, s1) | (False, s1) \<Rightarrow> WaitFor_loop n probe s1)"

definition WaitFor ::
  "'sw env \<Rightarrow> ('sw RedHatProvisioner \<Rightarrow> bool \<times> 'sw RedHatProvisioner) \<Rightarrow>
     'sw RedHatProvisioner \<Rightarrow> error option \<times> 'sw RedHatProvisioner"
where
  "WaitFor e probe p = WaitFor_loop (WaitFor_retries e) probe p"

subsection \<open>The provisioning run\<close>

text \<open>The loop over \<open>provisioner.Packages\<close> (lines 227-232).\<close>

fun installBasePackages ::
  "'sw env \<Rightarrow> string list \<Rightarrow> 'sw RedHatProvisioner \<Rightarrow> error option \<times> 'sw RedHatProvisioner"
where
  "installBasePackages e [] p = (None, p)"
| "installBasePackages e (pkg # pkgs) p =
     (case Package e pkg Install p of
        (Some err, p1) \<Rightarrow> (Some err, p1)
      | (None, p1) \<Rightarrow> installBasePackages e pkgs p1)"

text \<open>The assignments that open \<open>Provision\<close> (lines 214-221).\<close>

definition setOptions ::
  "'sw \<Rightarrow> auth_AuthOptions \<Rightarrow> engine_EngineOptions \<Rightarrow> 'sw RedHatProvisioner \<Rightarrow>
     'sw RedHatProvisioner"
where
  "setOptions swarmOptions authOptions engineOptions p =
     (let p1 = p\<lparr>SwarmOptions := swarmOptions, AuthOptions := authOptions,
                 EngineOptions := engineOptions\<rparr>
      in if StorageDriver (EngineOptions p1) = []
         then p1\<lparr>EngineOptions := (EngineOptions p1)\<lparr>StorageDriver := ''devicemapper''\<rparr>\<rparr>
         else p1)"

text \<open>\<open>Provision\<close> (lines 213-264).\<close>

definition Provision ::
  "'sw env \<Rightarrow> 'sw \<Rightarrow> auth_AuthOptions \<Rightarrow> engine_EngineOptions \<Rightarrow> 'sw RedHatProvisioner \<Rightarrow>
     error option \<times> 'sw RedHatProvisioner"
where
  "Provision e swarmOptions authOptions engineOptions p =
     (case SetHostname e (GetMachineName e) (setOptions swarmOptions authOptions engineOptions p) of
        (Some err, p1) \<Rightarrow> (Some err, p1)
      | (None, p1) \<Rightarrow>
     (case installBasePackages e (Packages p1) p1 of
        (Some err, p2) \<Rightarrow> (Some err, p2)
      | (None, p2) \<Rightarrow>
     (case SSHCommand e (SSHSudo e ''yum -y update'') p2 of (r, p3) \<Rightarrow>
     (case errorOf r of
        Some err \<Rightarrow> (Some err, p3)
      | None \<Rightarrow>
     (case installDocker e p3 of
        (Some err, p4) \<Rightarrow> (Some err, p4)
      | (None, p4) \<Rightarrow>
     (case WaitFor e (dockerDaemonResponding e) p4 of
        (Some err, p5) \<Rightarrow> (Some err, p5)
      | (None, p5) \<Rightarrow>
     (case makeDockerOptionsDir e p5 of
        (Some err, p6) \<Rightarrow> (Some err, p6)
      | (None, p6) \<Rightarrow>
     (case ConfigureAuth e (p6\<lparr>AuthOptions := setRemoteAuthOptions e p6\<rparr>) of
        (Some err, p7) \<Rightarrow> (Some err, p7)
      | (None, p7) \<Rightarrow>
     (case configureSwarm e p7 swarmOptions (AuthOptions p7) of
        (Some err, p8) \<Rightarrow> (Some err, p8)
      | (None, p8) \<Rightarrow> (None, p8))))))))))"

subsection \<open>The engine configuration\<close>

text \<open>\<open>engineConfigTemplate\<close> (lines 30-37).\<close>

definition engineConfigTemplate :: string where
  \<open>engineConfigTemplate =
     ''[Service]\<newline>'' @
     ''ExecStart=/usr/bin/docker -d -H tcp://0.0.0.0:{{.DockerPort}} -H unix:///var/run/docker.sock '' @
     ''--storage-driver {{.EngineOptions.StorageDriver}} --tlsverify '' @
     ''--tlscacert {{.AuthOptions.CaCertRemotePath}} --tlscert {{.AuthOptions.ServerCertRemotePath}} '' @
     ''--tlskey {{.AuthOptions.ServerKeyRemotePath}} '' @
     ''{{ range .EngineOptions.Labels }}--label {{.}} {{ end }}'' @
     ''{{ range .EngineOptions.InsecureRegistry }}--insecure-registry {{.}} {{ end }}'' @
     ''{{ range .EngineOptions.RegistryMirror }}--registry-mirror {{.}} {{ end }}'' @
     ''{{ range .EngineOptions.ArbitraryFlags }}--{{.}} {{ end }}\<newline>'' @
     ''MountFlags=slave\<newline>'' @
     ''LimitNOFILE=1048576\<newline>'' @
     ''LimitNPROC=1048576\<newline>'' @
     ''LimitCORE=infinity\<newline>'' @
     ''Environment={{range .EngineOptions.Env}}{{ printf "%q" . }} {{end}}\<newline>''\<close>

text \<open>
  What the template renders to.  \<open>text/template\<close> copies the text between the actions,
  prints a field as it is (a string unescaped, an int in decimal), and runs the body of a
  \<open>range\<close> once for each element, in order.
\<close>

definition range_over :: "'a list \<Rightarrow> ('a \<Rightarrow> string) \<Rightarrow> string" where
  "range_over xs body = concat (map body xs)"

definition ExecStart_line :: "EngineConfigContext \<Rightarrow> string" where
  "ExecStart_line c =
     ''ExecStart=/usr/bin/docker -d -H tcp://0.0.0.0:'' @ itoa (DockerPort c) @
     '' -H unix:///var/run/docker.sock --storage-driver '' @ StorageDriver (ctx_EngineOptions c) @
     '' --tlsverify --tlscacert '' @ CaCertRemotePath (ctx_AuthOptions c) @
     '' --tlscert '' @ ServerCertRemotePath (ctx_AuthOptions c) @
     '' --tlskey '' @ ServerKeyRemotePath (ctx_AuthOptions c) @ '' '' @
     range_over (Labels (ctx_EngineOptions c)) (\<lambda>x. ''--label '' @ x @ '' '') @
     range_over (InsecureRegistry (ctx_EngineOptions c)) (\<lambda>x. ''--insecure-registry '' @ x @ '' '') @
     range_over (RegistryMirror (ctx_EngineOptions c)) (\<lambda>x. ''--registry-mirror '' @ x @ '' '') @
     range_over (ArbitraryFlags (ctx_EngineOptions c)) (\<lambda>x. ''--'' @ x @ '' '')"

definition Environment_line :: "EngineConfigContext \<Rightarrow> string" where
  "Environment_line c =
     ''Environment='' @ range_over (Env (ctx_EngineOptions c)) (\<lambda>x. Sprintf ''%q'' [x] @ '' '')"

definition render_engineConfig :: "EngineConfigContext \<Rightarrow> string" where
  "render_engineConfig c =
     ''[Service]\<newline>'' @
     ExecStart_line c @ ''\<newline>'' @
     ''MountFlags=slave\<newline>'' @
     ''LimitNOFILE=1048576\<newline>'' @
     ''LimitNPROC=1048576\<newline>'' @
     ''LimitCORE=infinity\<newline>'' @
     Environment_line c @ ''\<newline>''"

text \<open>
  \<open>GenerateDockerOptions\<close> (lines 266-296).  \<open>t.Execute\<close> writes into a \<open>bytes.Buffer\<close>,
  and the code does not look at what it returns.  On the constant template, with a context
  built from a struct literal, \<open>Execute\<close> runs to the end, so the buffer holds the whole
  rendering.
\<close>

definition GenerateDockerOptions ::
  "'sw env \<Rightarrow> int \<Rightarrow> 'sw RedHatProvisioner \<Rightarrow> (error + DockerOptions) \<times> 'sw RedHatProvisioner"
where
  "GenerateDockerOptions e dockerPort p =
     (let configPath = DaemonOptionsFile p;
          driverNameLabel = Sprintf ''provider=%s'' [DriverName e];
          p1 = p\<lparr>EngineOptions :=
                   (EngineOptions p)\<lparr>Labels := Labels (EngineOptions p) @ [driverNameLabel]\<rparr>\<rparr>
      in case template_Parse e ''engineConfig'' engineConfigTemplate of
           Some err \<Rightarrow> (Inl err, p1)
         | None \<Rightarrow>
             (let engineConfigContext =
                    \<lparr> DockerPort = dockerPort,
                      ctx_AuthOptions = AuthOptions p1,
                      ctx_EngineOptions = EngineOptions p1,
                      ctx_DockerOptionsDir = DockerOptionsDir p1 \<rparr>;
                  engineCfg = render_engineConfig engineConfigContext;
                  daemonOptsDir = configPath
              in (Inr \<lparr> opts_EngineOptions = engineCfg, opts_EngineOptionsPath = daemonOptsDir \<rparr>,
                  p1)))"

text \<open>\<open>n\<close> calls of \<open>GenerateDockerOptions\<close> in a row on the same provisioner.\<close>

fun GenerateDockerOptions_times ::
  "nat \<Rightarrow> 'sw env \<Rightarrow> int \<Rightarrow> 'sw RedHatProvisioner \<Rightarrow> 'sw RedHatProvisioner"
where
  "GenerateDockerOptions_times 0 e dockerPort p = p"
| "GenerateDockerOptions_times (Suc n) e dockerPort p =
     GenerateDockerOptions_times n e dockerPort (snd (GenerateDockerOptions e dockerPort p))"

text \<open>The lines of a text: the pieces that end at a newline, and what follows the last one.\<close>

definition single_line :: "string \<Rightarrow> bool" where
  "single_line s = (CHR 0x0A \<notin> set s)"

fun lines_from :: "string \<Rightarrow> string \<Rightarrow> string list" where
  "lines_from cur [] = (if cur = [] then [] else [cur])"
| "lines_from cur (c # cs) =
     (if c = CHR 0x0A then cur # lines_from [] cs else lines_from (cur @ [c]) cs)"

definition lines_of :: "string \<Rightarrow> string list" where
  "lines_of s = lines_from [] s"

text \<open>The values that the template copies into the \<open>ExecStart\<close> line as they are.\<close>

definition copied_values :: "EngineConfigContext \<Rightarrow> string list" where
  "copied_values c =
     [StorageDriver (ctx_EngineOptions c), CaCertRemotePath (ctx_AuthOptions c),
      ServerCertRemotePath (ctx_AuthOptions c), ServerKeyRemotePath (ctx_AuthOptions c)] @
     Labels (ctx_EngineOptions c) @ InsecureRegistry (ctx_EngineOptions c) @
     RegistryMirror (ctx_EngineOptions c) @ ArbitraryFlags (ctx_EngineOptions c)"

subsection \<open>The order of the steps, in the words of the specification\<close>

text \<open>
  The specification describes \<open>Provision\<close> as a fixed linear sequence of steps that stops
  at the first step that fails.  \<open>runSteps\<close> is that reading; \<open>provisionSteps\<close> is the
  sequence; \<open>failingStep\<close> is the position of the step that stopped the run.
\<close>

fun runSteps :: "('s \<Rightarrow> error option \<times> 's) list \<Rightarrow> 's \<Rightarrow> error option \<times> 's" where
  "runSteps [] s = (None, s)"
| "runSteps (step # steps) s =
     (case step s of
        (Some err, s1) \<Rightarrow> (Some err, s1)
      | (None, s1) \<Rightarrow> runSteps steps s1)"

fun failingStep :: "('s \<Rightarrow> error option \<times> 's) list \<Rightarrow> 's \<Rightarrow> nat option" where
  "failingStep [] s = None"
| "failingStep (step # steps) s =
     (case step s of
        (Some err, s1) \<Rightarrow> Some 0
      | (None, s1) \<Rightarrow> map_option Suc (failingStep steps s1))"

definition step_SetHostname :: "'sw env \<Rightarrow> 'sw RedHatProvisioner \<Rightarrow> error option \<times> 'sw RedHatProvisioner" where
  "step_SetHostname e p = SetHostname e (GetMachineName e) p"

definition step_BasePackages :: "'sw env \<Rightarrow> 'sw RedHatProvisioner \<Rightarrow> error option \<times> 'sw RedHatProvisioner" where
  "step_BasePackages e p = installBasePackages e (Packages p) p"

definition step_OsUpdate :: "'sw env \<Rightarrow> 'sw RedHatProvisioner \<Rightarrow> error option \<times> 'sw RedHatProvisioner" where
  "step_OsUpdate e p = (case SSHCommand e (SSHSudo e ''yum -y update'') p of (r, p1) \<Rightarrow> (errorOf r, p1))"

definition step_ConfigureAuth :: "'sw env \<Rightarrow> 'sw RedHatProvisioner \<Rightarrow> error option \<times> 'sw RedHatProvisioner" where
  "step_ConfigureAuth e p = ConfigureAuth e (p\<lparr>AuthOptions := setRemoteAuthOptions e p\<rparr>)"

definition step_configureSwarm ::
  "'sw env \<Rightarrow> 'sw \<Rightarrow> 'sw RedHatProvisioner \<Rightarrow> error option \<times> 'sw RedHatProvisioner"
where
  "step_configureSwarm e swarmOptions p = configureSwarm e p swarmOptions (AuthOptions p)"

definition provisionSteps ::
  "'sw env \<Rightarrow> 'sw \<Rightarrow> ('sw RedHatProvisioner \<Rightarrow> error option \<times> 'sw RedHatProvisioner) list"
where
  "provisionSteps e swarmOptions =
     [step_SetHostname e,
      step_BasePackages e,
      step_OsUpdate e,
      installDocker e,
      WaitFor e (dockerDaemonResponding e),
      makeDockerOptionsDir e,
      step_ConfigureAuth e,
      step_configureSwarm e swarmOptions]"

subsection \<open>The remote script that updates /etc/hosts\<close>

text \<open>
  The second command of \<open>SetHostname\<close> (lines 102-110) is a shell script that runs on the
  remote host:
  \<^verbatim>\<open>if grep -xq 127.0.1.1.* /etc/hosts;
  then sh -c "sed -i 's/^127.0.1.1.*/127.0.1.1 HOST/g' /etc/hosts";
  else sh -c "echo '127.0.1.1 HOST' | tee -a /etc/hosts"; fi\<close>
  Its effect on the file is written out here, for a POSIX shell with its default options
  and GNU \<open>grep\<close> and \<open>sed\<close> that may read and write the file.  Two things on the remote
  host decide with the file what the script does: the character set of the locale, and the
  names in the working directory that the unquoted word \<open>127.0.1.1.*\<close> of the \<open>grep\<close>
  command matches as a shell pattern, in the order the shell puts them.
\<close>

datatype charset = C_charset | UTF8_charset

record remote_host =
  host_charset :: charset
  glob_matches :: "string list"

text \<open>
  A text file is its newline-terminated lines, followed by the bytes after the last
  newline (empty when the file ends with a newline or is empty).
\<close>

record text_file =
  complete_lines :: "string list"
  last_partial :: string

text \<open>
  The characters of a line.  In the C locale every byte is a character.  In a UTF-8 locale
  a character is a byte below 0x80 or a well-formed sequence of two to four bytes for a
  Unicode scalar value; a continuation byte out of place and the bytes 0xFE and 0xFF are
  no characters, and \<open>grep\<close> and \<open>sed\<close> stop matching there.  At any other byte sequence
  (overlong forms, surrogates, values above U+10FFFF, cut-off sequences) the result is
  left open (\<open>Disputed\<close>).  \<open>characters\<close> gives the characters of the longest initial
  part of a line that is made of characters, each as its bytes.
\<close>

definition byte :: "char \<Rightarrow> nat" where
  "byte c = of_char c"

definition ascii_char :: "char \<Rightarrow> bool" where
  "ascii_char c = (byte c < 128)"

definition continuation_at :: "string \<Rightarrow> nat \<Rightarrow> bool" where
  "continuation_at bs i = (i < length bs \<and> 128 \<le> byte (bs ! i) \<and> byte (bs ! i) \<le> 191)"

definition byte_between :: "string \<Rightarrow> nat \<Rightarrow> nat \<Rightarrow> bool" where
  "byte_between bs lo hi = (0 < length bs \<and> lo \<le> byte (bs ! 0) \<and> byte (bs ! 0) \<le> hi)"

datatype utf8_head_kind = Character nat | Invalid_byte | Disputed

fun utf8_head :: "string \<Rightarrow> utf8_head_kind" where
  "utf8_head [] = Invalid_byte"
| "utf8_head (b # rest) =
     (if byte b < 128 then Character 1
      else if byte b \<le> 191 \<or> 254 \<le> byte b then Invalid_byte
      else if 194 \<le> byte b \<and> byte b \<le> 223 \<and> continuation_at rest 0 then Character 2
      else if byte b = 224 \<and> byte_between rest 160 191 \<and> continuation_at rest 1 then Character 3
      else if (225 \<le> byte b \<and> byte b \<le> 236 \<or> 238 \<le> byte b \<and> byte b \<le> 239)
              \<and> continuation_at rest 0 \<and> continuation_at rest 1 then Character 3
      else if byte b = 237 \<and> byte_between rest 128 159 \<and> continuation_at rest 1 then Character 3
      else if byte b = 240 \<and> byte_between rest 144 191 \<and> continuation_at rest 1
              \<and> continuation_at rest 2 then Character 4
      else if 241 \<le> byte b \<and> byte b \<le> 243 \<and> continuation_at rest 0 \<and> continuation_at rest 1
              \<and> continuation_at rest 2 then Character 4
      else if byte b = 244 \<and> byte_between rest 128 143 \<and> continuation_at rest 1
              \<and> continuation_at rest 2 then Character 4
      else Disputed)"

function utf8_characters :: "string \<Rightarrow> string list option" where
  "utf8_characters [] = Some []"
| "utf8_characters (b # rest) =
     (case utf8_head (b # rest) of
        Character k \<Rightarrow>
          map_option (\<lambda>chs. take k (b # rest) # chs) (utf8_characters (drop (k - 1) rest))
      | Invalid_byte \<Rightarrow> Some []
      | Disputed \<Rightarrow> None)"
  by pat_completeness auto
termination
  by (relation "measure length") auto

definition characters :: "charset \<Rightarrow> string \<Rightarrow> string list option" where
  "characters cs l =
     (case cs of
        C_charset \<Rightarrow> Some (map (\<lambda>c. [c]) l)
      | UTF8_charset \<Rightarrow> utf8_characters l)"

definition whole_line :: "charset \<Rightarrow> string \<Rightarrow> bool" where
  "whole_line cs l = (map_option concat (characters cs l) = Some l)"

text \<open>The lines that the model covers: no NUL byte, no newline inside, no open byte sequence.\<close>

definition modelled_text :: "charset \<Rightarrow> string \<Rightarrow> bool" where
  "modelled_text loc s =
     (CHR 0x00 \<notin> set s \<and> CHR 0x0A \<notin> set s \<and> characters loc s \<noteq> None)"

text \<open>
  A basic regular expression made of ordinary characters and dots, matched against a
  whole text: a dot stands for any one character, of one byte or more.  The expression
  \<open>127.0.1.1.*\<close>, which \<open>sed\<close> anchors at the start of the line, matches the lines that
  begin with nine characters matching \<open>127.0.1.1\<close>.
\<close>

fun dots_match :: "string \<Rightarrow> string list \<Rightarrow> bool" where
  "dots_match [] [] = True"
| "dots_match (p # ps) (c # cs) = ((p = CHR ''.'' \<or> [p] = c) \<and> dots_match ps cs)"
| "dots_match _ _ = False"

definition loopback_pattern :: "string list \<Rightarrow> bool" where
  "loopback_pattern chs = dots_match ''127.0.1.1'' (take 9 chs)"

definition loopback_line :: "charset \<Rightarrow> string \<Rightarrow> bool" where
  "loopback_line cs l =
     (case characters cs l of None \<Rightarrow> False | Some chs \<Rightarrow> loopback_pattern chs)"

text \<open>
  The pattern that \<open>grep -x\<close> gets.  Without a matching name in the working directory the
  shell passes the word as it is.  With one matching name the shell passes that name, and
  \<open>grep\<close> reads it as an expression; this is covered for names whose part after
  \<open>127.0.1.1.\<close> is made of letters, digits, hyphens, dots and underscores.  With more
  names \<open>grep\<close> would search the other names as files; this is not covered.
\<close>

definition plain_char :: "char \<Rightarrow> bool" where
  "plain_char c =
     (c \<in> set ''abcdefghijklmnopqrstuvwxyzABCDEFGHIJKLMNOPQRSTUVWXYZ0123456789-._'')"

definition grep_pattern :: "string list \<Rightarrow> (string list \<Rightarrow> bool) option" where
  "grep_pattern names =
     (case names of
        [] \<Rightarrow> Some loopback_pattern
      | [name] \<Rightarrow>
          if take 10 name = ''127.0.1.1.'' \<and> list_all plain_char (drop 10 name)
          then Some (dots_match name) else None
      | _ \<Rightarrow> None)"

definition file_lines :: "text_file \<Rightarrow> string list" where
  "file_lines f = complete_lines f @ (if last_partial f = [] then [] else [last_partial f])"

text \<open>
  The loopback lines of a file on a remote host: the lines that the expression of \<open>sed\<close>
  matches there.
\<close>

definition loopback_lines :: "remote_host \<Rightarrow> text_file \<Rightarrow> string list" where
  "loopback_lines r f = filter (loopback_line (host_charset r)) (file_lines f)"

text \<open>
  The host name is pasted into the script between quotes.  A name with a dollar sign, a
  backquote, a backslash, a double or single quote or a slash is handled by the quoting
  rules of the shell and of \<open>sed\<close>, and the model gives no result for it.  An ampersand in
  the replacement of \<open>sed\<close> stands for the matched text.
\<close>

definition quoting_char :: "char \<Rightarrow> bool" where
  "quoting_char c = (c \<in> set [CHR ''$'', CHR 0x60, CHR 0x5C, CHR 0x22, CHR 0x27, CHR ''/''])"

definition modelled_hostname :: "charset \<Rightarrow> string \<Rightarrow> bool" where
  "modelled_hostname loc h = (modelled_text loc h \<and> \<not> list_ex quoting_char h)"

definition sed_replacement :: "string \<Rightarrow> string \<Rightarrow> string" where
  "sed_replacement hostname matched =
     concat (map (\<lambda>c. if c = CHR ''&'' then matched else [c]) (''127.0.1.1 '' @ hostname))"

definition sed_substitute :: "charset \<Rightarrow> string \<Rightarrow> string \<Rightarrow> string" where
  "sed_substitute loc hostname l =
     (case characters loc l of
        None \<Rightarrow> l
      | Some chs \<Rightarrow>
          if loopback_pattern chs
          then sed_replacement hostname (concat chs) @ drop (length (concat chs)) l
          else l)"

text \<open>
  \<open>grep -x\<close> selects a line when the whole line is made of characters and they match the
  pattern.
\<close>

definition grep_selects :: "charset \<Rightarrow> (string list \<Rightarrow> bool) \<Rightarrow> string \<Rightarrow> bool" where
  "grep_selects loc pattern l =
     (case characters loc l of
        None \<Rightarrow> False
      | Some chs \<Rightarrow> concat chs = l \<and> pattern chs)"

text \<open>
  The script: when \<open>grep -xq\<close> selects some line, \<open>sed -i\<close> rewrites every line, else
  \<open>tee -a\<close> appends the new entry and a newline to the bytes of the file.
\<close>

definition hosts_script :: "remote_host \<Rightarrow> string \<Rightarrow> text_file \<Rightarrow> text_file option" where
  "hosts_script r hostname f =
     (if \<not> modelled_hostname (host_charset r) hostname
         \<or> \<not> list_all (modelled_text (host_charset r)) (file_lines f)
      then None
      else
        (case grep_pattern (glob_matches r) of
           None \<Rightarrow> None
         | Some pattern \<Rightarrow>
             if list_ex (grep_selects (host_charset r) pattern) (file_lines f)
             then Some \<lparr> complete_lines =
                           map (sed_substitute (host_charset r) hostname) (complete_lines f),
                         last_partial =
                           (if last_partial f = [] then []
                            else sed_substitute (host_charset r) hostname (last_partial f)) \<rparr>
             else Some \<lparr> complete_lines =
                           complete_lines f @ [last_partial f @ ''127.0.1.1 '' @ hostname],
                         last_partial = [] \<rparr>))"

text \<open>The script run once for each host name of a list, in order.\<close>

fun hosts_scripts :: "remote_host \<Rightarrow> string list \<Rightarrow> text_file \<Rightarrow> text_file option" where
  "hosts_scripts r [] f = Some f"
| "hosts_scripts r (h # hs) f =
     (case hosts_script r h f of None \<Rightarrow> None | Some f1 \<Rightarrow> hosts_scripts r hs f1)"

text \<open>
  Lines made of characters of the locale only, and host names of this kind without an
  ampersand and without the characters of the quoting rules.
\<close>

definition clean_text :: "charset \<Rightarrow> string \<Rightarrow> bool" where
  "clean_text cs s = (CHR 0x00 \<notin> set s \<and> CHR 0x0A \<notin> set s \<and> whole_line cs s)"

definition plain_hostname :: "charset \<Rightarrow> string \<Rightarrow> bool" where
  "plain_hostname loc h =
     (clean_text loc h \<and> \<not> list_ex quoting_char h \<and> CHR ''&'' \<notin> set h)"

text \<open>Two remote hosts without a matching name in the working directory.\<close>

definition host_C :: remote_host where
  "host_C = \<lparr> host_charset = C_charset, glob_matches = [] \<rparr>"

definition host_UTF8 :: remote_host where
  "host_UTF8 = \<lparr> host_charset = UTF8_charset, glob_matches = [] \<rparr>"

subsection \<open>A test double for the environment\<close>

text \<open>
  A driver named virtualbox for the machine host1 that prefixes commands with sudo, a
  native SSH client, and a remote host on which exactly the commands in \<open>failing\<close> fail.
  The helpers of the other files succeed and leave a mark in the trace.
\<close>

definition mark :: "string \<Rightarrow> 'sw RedHatProvisioner \<Rightarrow> error option \<times> 'sw RedHatProvisioner" where
  "mark name p = (None, p\<lparr>trace := trace p @ [Output OtherClient name]\<rparr>)"

definition test_env :: "(string \<Rightarrow> bool) \<Rightarrow> unit env" where
  "test_env failing =
     \<lparr> SSHSudo = (\<lambda>command. ''sudo '' @ command),
       GetMachineName = ''host1'',
       DriverName = ''virtualbox'',
       GetSSHClientFromDriver = (\<lambda>calls. Inr NativeClient),
       ssh_result = (\<lambda>calls call. if failing (command_of call)
                                   then Inl (ExternalError ''exit status 1'') else Inr []),
       GetOsReleaseInfo = (\<lambda>p. Inr \<lparr> OsRelease_Id = OsReleaseId p, OsRelease_Version = ''7'' \<rparr>),
       template_Parse = (\<lambda>name text. None),
       template_Execute_fault = (\<lambda>name. None),
       WaitFor_retries = 59,
       makeDockerOptionsDir = mark ''makeDockerOptionsDir'',
       setRemoteAuthOptions = AuthOptions,
       ConfigureAuth = mark ''ConfigureAuth'',
       configureSwarm = (\<lambda>p swarmOptions authOptions. mark ''configureSwarm'' p) \<rparr>"

definition test_engineOptions :: engine_EngineOptions where
  "test_engineOptions =
     \<lparr> StorageDriver = [], Labels = [''a'', ''b''], InsecureRegistry = [''r1''],
       RegistryMirror = [], ArbitraryFlags = [], Env = [''X=1''] \<rparr>"

definition test_authOptions :: auth_AuthOptions where
  "test_authOptions =
     \<lparr> CaCertRemotePath = ''/etc/docker/ca.pem'',
       ServerCertRemotePath = ''/etc/docker/server.pem'',
       ServerKeyRemotePath = ''/etc/docker/server-key.pem'' \<rparr>"

definition test_provisioner :: "unit RedHatProvisioner" where
  "test_provisioner =
     (NewRedHatProvisioner ())\<lparr>AuthOptions := test_authOptions, EngineOptions := test_engineOptions\<rparr>"

definition every_command :: "string \<Rightarrow> bool" where
  "every_command c = True"

definition no_command :: "string \<Rightarrow> bool" where
  "no_command c = False"

definition only_yum_update :: "string \<Rightarrow> bool" where
  "only_yum_update c = (c = ''sudo yum -y update'')"

text \<open>The two commands of \<open>SetHostname\<close> for host1, and the test provisioner after a run of commands.\<close>

definition test_hostname_commands :: "string list" where
  \<open>test_hostname_commands =
     [''sudo sh -c 'hostname host1 && echo "host1" | tee /etc/hostname'' @ [CHR 0x27],
      ''if grep -xq 127.0.1.1.* /etc/hosts; '' @
      ''then sudo sh -c "sed -i 's/^127.0.1.1.*/127.0.1.1 host1/g' /etc/hosts"; '' @
      ''else sudo sh -c "echo '127.0.1.1 host1' | tee -a /etc/hosts"; fi'']\<close>

definition test_provisioner_after :: "string list \<Rightarrow> unit RedHatProvisioner" where
  "test_provisioner_after commands =
     test_provisioner
       \<lparr>EngineOptions := test_engineOptions\<lparr>StorageDriver := ''devicemapper''\<rparr>,
        trace := map (OutputWithPty NativeClient) commands\<rparr>"

text \<open>The texts of the two commands of \<open>SetHostname\<close> for a driver that prefixes commands with \<open>pre\<close>.\<close>

definition hostname_command :: "string \<Rightarrow> string \<Rightarrow> string" where
  \<open>hostname_command pre hostname =
     pre @ ''sh -c 'hostname '' @ hostname @ '' && echo '' @ Quote hostname @
     '' | tee /etc/hostname'' @ [CHR 0x27]\<close>

definition hosts_command :: "string \<Rightarrow> string \<Rightarrow> string" where
  \<open>hosts_command pre hostname =
     ''if grep -xq 127.0.1.1.* /etc/hosts; then '' @
     pre @ ''sh -c "sed -i 's/^127.0.1.1.*/127.0.1.1 '' @ hostname @ ''/g' /etc/hosts"'' @
     ''; else '' @
     pre @ ''sh -c "echo '127.0.1.1 '' @ hostname @ ''' | tee -a /etc/hosts"'' @
     ''; fi''\<close>

text \<open>The context that \<open>GenerateDockerOptions\<close> builds for the test provisioner and port 2376.\<close>

definition test_context :: EngineConfigContext where
  "test_context =
     \<lparr> DockerPort = 2376,
       ctx_AuthOptions = test_authOptions,
       ctx_EngineOptions = test_engineOptions\<lparr>Labels := [''a'', ''b'', ''provider=virtualbox'']\<rparr>,
       ctx_DockerOptionsDir = ''/etc/docker'' \<rparr>"

section \<open>Properties\<close>

subsection \<open>Basic facts\<close>

lemma errorOf_simps [simp]: "errorOf (Inl err) = Some err" "errorOf (Inr x) = None"
  by (simp_all add: errorOf_def)

lemma command_of_client_call [simp]: "command_of (client_call client args) = args"
  by (cases client) (simp_all add: client_call_def)

lemma issued_refl [simp]: "issued p p []"
  by (simp add: issued_def)

lemma issuedI:
  "p1 = p\<lparr>trace := trace p @ calls\<rparr> \<Longrightarrow> map command_of calls = commands \<Longrightarrow> issued p p1 commands"
  by (auto simp: issued_def)

lemma issued_trans: "issued p p1 xs \<Longrightarrow> issued p1 p2 ys \<Longrightarrow> issued p p2 (xs @ ys)"
  by (auto simp: issued_def)

lemma SSHCommand_cases:
  assumes "SSHCommand e args p = (r, p1)"
  obtains (no_client) err where "r = Inl err" "p1 = p" "GetSSHClientFromDriver e (trace p) = Inl err"
    | (ran) client where "GetSSHClientFromDriver e (trace p) = Inr client"
        "r = ssh_result e (trace p) (client_call client args)"
        "p1 = p\<lparr>trace := trace p @ [client_call client args]\<rparr>" "issued p p1 [args]"
proof (cases "GetSSHClientFromDriver e (trace p)")
  case (Inl err)
  with assms show ?thesis by (auto simp: SSHCommand_def intro: no_client)
next
  case (Inr client)
  with assms have "r = ssh_result e (trace p) (client_call client args)"
    and p1: "p1 = p\<lparr>trace := trace p @ [client_call client args]\<rparr>"
    by (auto simp: SSHCommand_def)
  moreover from p1 have "issued p p1 [args]" by (auto intro: issuedI)
  ultimately show ?thesis using Inr by (rule ran[rotated])
qed

lemma issued_SSHCommand:
  "GetSSHClientFromDriver e (trace p) = Inr client \<Longrightarrow> issued p (snd (SSHCommand e args p)) [args]"
  by (auto simp: SSHCommand_def intro: issuedI)

text \<open>Text without a percent sign at the head of a format is copied.\<close>

lemma Sprintf_plain: "CHR ''%'' \<notin> set a \<Longrightarrow> Sprintf (a @ f) as = a @ Sprintf f as"
proof (induction a)
  case Nil
  then show ?case by simp
next
  case (Cons c a)
  then show ?case by (cases "a @ f") auto
qed

lemma Sprintf_yum:
  "CHR ''%'' \<notin> set pre \<Longrightarrow>
     Sprintf (pre @ ''yum %s -y %s'') [verb, name] = pre @ ''yum '' @ verb @ '' -y '' @ name"
  by (simp add: Sprintf_plain fmtVerb_def)

lemma Sprintf_systemctl:
  "CHR ''%'' \<notin> set pre \<Longrightarrow>
     Sprintf (pre @ ''systemctl %s %s'') [verb, name] = pre @ ''systemctl '' @ verb @ '' '' @ name"
  by (simp add: Sprintf_plain fmtVerb_def)

lemma Package_eq:
  "Package e name action p =
     (case SSHCommand e (Sprintf (SSHSudo e ''yum %s -y %s'') [packageAction action, name]) p of
        (r, p1) \<Rightarrow> (errorOf r, p1))"
  by (simp add: Package_def Let_def split: prod.splits option.splits)

subsection \<open>C1: the repository coordinate\<close>

text \<open>
  C1.  The identifiers rhel and centos resolve to the coordinate (centos, 7), fedora to
  (fedora, 22), and every other identifier to the error \<open>ErrUnknownYumOsRelease\<close>.  When
  the release information is available, \<open>generateYumRepoList\<close> returns that error for an
  unknown identifier, and for a known one the repository file rendered from the
  coordinate, unless the template library reports an error, which it returns.  No
  identifier is given a default coordinate.
\<close>

theorem generateYumRepoList_coordinate:
  fixes e :: "'sw env"
  shows "packageListInfo_of ''rhel'' = Inr \<lparr> OsRelease = ''centos'', OsReleaseVersion = ''7'' \<rparr>
    \<and> packageListInfo_of ''centos'' = Inr \<lparr> OsRelease = ''centos'', OsReleaseVersion = ''7'' \<rparr>
    \<and> packageListInfo_of ''fedora'' = Inr \<lparr> OsRelease = ''fedora'', OsReleaseVersion = ''22'' \<rparr>
    \<and> (releaseId \<notin> {''rhel'', ''centos'', ''fedora''} \<longrightarrow>
          packageListInfo_of releaseId = Inl ErrUnknownYumOsRelease)
    \<and> (GetOsReleaseInfo e p = Inr releaseInfo \<longrightarrow>
          generateYumRepoList e p =
            (case packageListInfo_of (OsRelease_Id releaseInfo) of
               Inl err \<Rightarrow> Inl ErrUnknownYumOsRelease
             | Inr info \<Rightarrow>
                 (case template_Parse e ''packageList'' packageListTemplate of
                    Some err \<Rightarrow> Inl err
                  | None \<Rightarrow>
                      (case template_Execute_fault e ''packageList'' of
                         Some (k, err) \<Rightarrow> Inl err
                       | None \<Rightarrow> Inr (render_packageList info)))))"
  by (auto simp: packageListInfo_of_def generateYumRepoList_def template_Execute_def
           split: sum.splits option.splits prod.splits)

theorem generateYumRepoList_coordinate_witness:
  "''ubuntu'' \<notin> {''rhel'', ''centos'', ''fedora''}
   \<and> packageListInfo_of ''ubuntu'' = Inl ErrUnknownYumOsRelease
   \<and> GetOsReleaseInfo (test_env no_command) test_provisioner =
       Inr \<lparr> OsRelease_Id = ''rhel'', OsRelease_Version = ''7'' \<rparr>
   \<and> generateYumRepoList (test_env no_command) test_provisioner =
       Inr (render_packageList \<lparr> OsRelease = ''centos'', OsReleaseVersion = ''7'' \<rparr>)
   \<and> generateYumRepoList (test_env no_command) (test_provisioner\<lparr>OsReleaseId := ''fedora''\<rparr>) =
       Inr (render_packageList \<lparr> OsRelease = ''fedora'', OsReleaseVersion = ''22'' \<rparr>)
   \<and> generateYumRepoList (test_env no_command) (test_provisioner\<lparr>OsReleaseId := ''ubuntu''\<rparr>) =
       Inl ErrUnknownYumOsRelease"
  using generateYumRepoList_coordinate
          [where releaseId = "''ubuntu''" and e = "test_env no_command" and p = test_provisioner
             and releaseInfo = "\<lparr> OsRelease_Id = ''rhel'', OsRelease_Version = ''7'' \<rparr>"]
        generateYumRepoList_coordinate
          [where releaseId = "''ubuntu''" and e = "test_env no_command"
             and p = "test_provisioner\<lparr>OsReleaseId := ''fedora''\<rparr>"
             and releaseInfo = "\<lparr> OsRelease_Id = ''fedora'', OsRelease_Version = ''7'' \<rparr>"]
        generateYumRepoList_coordinate
          [where releaseId = "''ubuntu''" and e = "test_env no_command"
             and p = "test_provisioner\<lparr>OsReleaseId := ''ubuntu''\<rparr>"
             and releaseInfo = "\<lparr> OsRelease_Id = ''ubuntu'', OsRelease_Version = ''7'' \<rparr>"]
  by (simp add: test_env_def no_command_def every_command_def test_provisioner_def NewRedHatProvisioner_def)

subsection \<open>C4: the verbs of the package and service commands\<close>

text \<open>
  C4.  Every package action (install, remove, upgrade) and every service action has a verb,
  the verb is not empty, and different actions have different verbs.  It is this verb
  that \<open>Package\<close> and \<open>Service\<close> put into the command they send: with a driver that
  prefixes commands (by a prefix free of percent signs) and a client at hand, \<open>Package\<close>
  sends the one command "yum VERB -y NAME", and \<open>Service\<close>, for an action without a
  reload, the one command "systemctl VERB NAME".
\<close>

theorem verbs_total_nonempty:
  fixes e :: "'sw env"
  shows "packageAction a \<in> {''install'', ''remove'', ''upgrade''}
    \<and> packageAction a \<noteq> []
    \<and> ServiceAction_String s \<in> {''restart'', ''start'', ''stop'', ''enable'', ''disable''}
    \<and> ServiceAction_String s \<noteq> []
    \<and> inj packageAction \<and> inj ServiceAction_String
    \<and> ((\<forall>c. SSHSudo e c = pre @ c) \<and> CHR ''%'' \<notin> set pre \<and>
         GetSSHClientFromDriver e (trace p) = Inr client \<longrightarrow>
         issued p (snd (Package e name a p)) [pre @ ''yum '' @ packageAction a @ '' -y '' @ name])
    \<and> ((\<forall>c. SSHSudo e c = pre @ c) \<and> CHR ''%'' \<notin> set pre \<and> \<not> reloadDaemon s \<and>
         GetSSHClientFromDriver e (trace p) = Inr client \<longrightarrow>
         issued p (snd (Service e name s p))
           [pre @ ''systemctl '' @ ServiceAction_String s @ '' '' @ name])"
proof -
  have 1: "packageAction a \<in> {''install'', ''remove'', ''upgrade''}" by (cases a) simp_all
  have 2: "ServiceAction_String s \<in> {''restart'', ''start'', ''stop'', ''enable'', ''disable''}"
    by (cases s) simp_all
  have 3: "inj packageAction"
  proof (rule injI)
    fix x y show "packageAction x = packageAction y \<Longrightarrow> x = y"
      by (cases x; cases y) simp_all
  qed
  have 4: "inj ServiceAction_String"
  proof (rule injI)
    fix x y show "ServiceAction_String x = ServiceAction_String y \<Longrightarrow> x = y"
      by (cases x; cases y) simp_all
  qed
  have 5: "issued p (snd (Package e name a p)) [pre @ ''yum '' @ packageAction a @ '' -y '' @ name]"
    if "\<forall>c. SSHSudo e c = pre @ c" "CHR ''%'' \<notin> set pre"
       "GetSSHClientFromDriver e (trace p) = Inr client"
    using that
    using issued_SSHCommand[of e p client "pre @ ''yum '' @ packageAction a @ '' -y '' @ name"]
    by (auto simp add: Package_eq Sprintf_yum split: prod.splits)
  have 6: "issued p (snd (Service e name s p))
           [pre @ ''systemctl '' @ ServiceAction_String s @ '' '' @ name]"
    if "\<forall>c. SSHSudo e c = pre @ c" "CHR ''%'' \<notin> set pre" "\<not> reloadDaemon s"
       "GetSSHClientFromDriver e (trace p) = Inr client"
    using that
    using issued_SSHCommand[of e p client "pre @ ''systemctl '' @ ServiceAction_String s @ '' '' @ name"]
    by (auto simp add: Service_def Let_def Sprintf_systemctl split: prod.splits option.splits)
  from 1 2 3 4 5 6 show ?thesis by auto
qed

theorem verbs_total_nonempty_witness:
  "(\<forall>c. SSHSudo (test_env no_command) c = ''sudo '' @ c) \<and> CHR ''%'' \<notin> set ''sudo ''
   \<and> \<not> reloadDaemon Stop
   \<and> GetSSHClientFromDriver (test_env no_command) (trace test_provisioner) = Inr NativeClient
   \<and> issued test_provisioner (snd (Package (test_env no_command) ''docker'' Upgrade test_provisioner))
       [''sudo yum upgrade -y docker'']
   \<and> issued test_provisioner (snd (Service (test_env no_command) ''docker'' Stop test_provisioner))
       [''sudo systemctl stop docker'']"
  using verbs_total_nonempty
          [where a = Upgrade and s = Stop and e = "test_env no_command" and pre = "''sudo ''"
             and p = test_provisioner and client = NativeClient and name = "''docker''"]
  by (simp add: test_env_def no_command_def every_command_def reloadDaemon_def)

subsection \<open>The steps only add to the trace\<close>

lemma reloadDaemon_iff: "reloadDaemon action \<longleftrightarrow> action = Start \<or> action = Restart"
  by (cases action) (simp_all add: reloadDaemon_def)

lemma adds_trans:
  "\<exists>cs. issued p p1 cs \<Longrightarrow> \<exists>cs. issued p1 p2 cs \<Longrightarrow> \<exists>cs. issued p p2 cs"
  by (blast intro: issued_trans)

lemma SSHCommand_adds: "SSHCommand e args p = (r, p1) \<Longrightarrow> \<exists>cs. issued p p1 cs"
  by (erule SSHCommand_cases) (auto intro: exI[of _ "[]"])

lemma Package_adds: "Package e name action p = (r, p1) \<Longrightarrow> \<exists>cs. issued p p1 cs"
  by (auto simp: Package_eq split: prod.splits dest: SSHCommand_adds)

lemma installBasePackages_adds:
  "installBasePackages e pkgs p = (r, p1) \<Longrightarrow> \<exists>cs. issued p p1 cs"
proof (induction pkgs arbitrary: p)
  case Nil
  then show ?case by (auto intro: exI[of _ "[]"])
next
  case (Cons pkg pkgs)
  obtain r0 q where first: "Package e pkg Install p = (r0, q)" by (cases "Package e pkg Install p")
  show ?case
  proof (cases r0)
    case None
    with Cons.prems first have "installBasePackages e pkgs q = (r, p1)" by simp
    from adds_trans[OF Package_adds[OF first] Cons.IH[OF this]] show ?thesis .
  next
    case (Some err)
    with Cons.prems first have "p1 = q" by simp
    with Package_adds[OF first] show ?thesis by simp
  qed
qed

lemma SetHostname_adds: "SetHostname e hostname p = (r, p1) \<Longrightarrow> \<exists>cs. issued p p1 cs"
  unfolding SetHostname_def Let_def
  by (auto split: prod.splits option.splits dest!: SSHCommand_adds intro: adds_trans)

lemma Service_adds: "Service e name action p = (r, p1) \<Longrightarrow> \<exists>cs. issued p p1 cs"
  unfolding Service_def Let_def
  by (auto split: prod.splits option.splits if_splits dest!: SSHCommand_adds
        intro: adds_trans exI[of _ "[]"])

lemma ConfigurePackageList_adds: "ConfigurePackageList e p = (r, p1) \<Longrightarrow> \<exists>cs. issued p p1 cs"
  unfolding ConfigurePackageList_def Let_def
  by (auto split: prod.splits option.splits sum.splits dest!: SSHCommand_adds
        intro: exI[of _ "[]"])

lemma installOfficialDocker_adds: "installOfficialDocker e p = (r, p1) \<Longrightarrow> \<exists>cs. issued p p1 cs"
  unfolding installOfficialDocker_def Let_def
  by (auto split: prod.splits option.splits dest!: SSHCommand_adds ConfigurePackageList_adds
        intro: adds_trans)

lemma installDocker_adds: "installDocker e p = (r, p1) \<Longrightarrow> \<exists>cs. issued p p1 cs"
  unfolding installDocker_def
  by (auto split: prod.splits option.splits dest!: installOfficialDocker_adds Service_adds;
      blast intro: issued_trans)

lemma dockerDaemonResponding_adds: "dockerDaemonResponding e p = (b, p1) \<Longrightarrow> \<exists>cs. issued p p1 cs"
  unfolding dockerDaemonResponding_def Let_def
  by (auto split: prod.splits option.splits dest!: SSHCommand_adds)

lemma WaitFor_adds:
  "WaitFor e (dockerDaemonResponding e) p = (r, p1) \<Longrightarrow> \<exists>cs. issued p p1 cs"
proof -
  have "WaitFor_loop n (dockerDaemonResponding e) p = (r, p1) \<Longrightarrow> \<exists>cs. issued p p1 cs" for n
  proof (induction n arbitrary: p)
    case 0
    then show ?case
      by (auto split: prod.splits bool.splits dest!: dockerDaemonResponding_adds)
  next
    case (Suc n)
    obtain b q where probe: "dockerDaemonResponding e p = (b, q)"
      by (cases "dockerDaemonResponding e p")
    show ?case
    proof (cases b)
      case True
      with Suc.prems probe have "p1 = q" by simp
      with dockerDaemonResponding_adds[OF probe] show ?thesis by simp
    next
      case False
      with Suc.prems probe have "WaitFor_loop n (dockerDaemonResponding e) q = (r, p1)" by simp
      from adds_trans[OF dockerDaemonResponding_adds[OF probe] Suc.IH[OF this]] show ?thesis .
    qed
  qed
  then show "WaitFor e (dockerDaemonResponding e) p = (r, p1) \<Longrightarrow> \<exists>cs. issued p p1 cs"
    by (simp add: WaitFor_def)
qed

lemma step_OsUpdate_adds: "step_OsUpdate e p = (r, p1) \<Longrightarrow> \<exists>cs. issued p p1 cs"
  by (auto simp: step_OsUpdate_def split: prod.splits dest!: SSHCommand_adds)

lemma issued_fields:
  assumes "issued p p1 cs"
  shows "EngineOptions p1 = EngineOptions p" "AuthOptions p1 = AuthOptions p"
    "SwarmOptions p1 = SwarmOptions p" "Packages p1 = Packages p"
    "prefix (trace p) (trace p1)"
  using assms by (auto simp: issued_def)

lemma runSteps_append:
  "runSteps (xs @ ys) s =
     (case runSteps xs s of (Some err, s1) \<Rightarrow> (Some err, s1) | (None, s1) \<Rightarrow> runSteps ys s1)"
  by (induction xs arbitrary: s) (auto split: prod.splits option.splits)

lemma runSteps_abort:
  "runSteps before s = (None, s1) \<Longrightarrow> step s1 = (Some err, s2) \<Longrightarrow>
     runSteps (before @ step # after) s = (Some err, s2)"
  by (simp add: runSteps_append)

lemma Provision_runSteps:
  "Provision e swarmOptions authOptions engineOptions p =
     runSteps (provisionSteps e swarmOptions) (setOptions swarmOptions authOptions engineOptions p)"
  unfolding Provision_def provisionSteps_def
  by (simp add: step_SetHostname_def step_BasePackages_def step_OsUpdate_def
        step_ConfigureAuth_def step_configureSwarm_def
        split: prod.splits option.splits)

lemma failingStep_runSteps: "failingStep steps s = None \<longleftrightarrow> fst (runSteps steps s) = None"
  by (induction steps arbitrary: s) (auto split: prod.splits option.splits)

lemma failingStep_append:
  "runSteps before s = (None, s1) \<Longrightarrow> step s1 = (Some err, s2) \<Longrightarrow>
     failingStep (before @ step # after) s = Some (length before)"
  by (induction before arbitrary: s) (auto split: prod.splits option.splits)

lemma early_steps_add:
  assumes "step \<in> set (take 5 (provisionSteps e sw))" "step q = (r, q1)"
  shows "\<exists>cs. issued q q1 cs"
  using assms
  by (auto simp: provisionSteps_def step_SetHostname_def step_BasePackages_def
        dest: SetHostname_adds installBasePackages_adds step_OsUpdate_adds installDocker_adds
          WaitFor_adds)

subsection \<open>C2: the order of the steps\<close>

text \<open>
  A complete run on the test double: the commands in the order of issue, and the marks of
  the three helpers at the end.
\<close>

lemma Provision_test_run:
  \<open>Provision (test_env no_command) () test_authOptions test_engineOptions test_provisioner =
     (None,
      test_provisioner
        \<lparr>EngineOptions := test_engineOptions\<lparr>StorageDriver := ''devicemapper''\<rparr>,
         trace :=
           map (OutputWithPty NativeClient)
             (test_hostname_commands @
              [''sudo yum install -y curl'',
               ''sudo yum -y update'',
               ''sudo sh -c 'echo '' @
                 Quote (render_packageList \<lparr> OsRelease = ''centos'', OsReleaseVersion = ''7'' \<rparr>) @
                 '' | sudo tee /etc/yum.repos.d/docker.repo'' @ [CHR 0x27],
               ''sudo yum install -y docker-engine'',
               ''sudo systemctl daemon-reload'',
               ''sudo systemctl restart docker'',
               ''sudo systemctl enable docker'',
               ''sudo docker version'']) @
           [Output OtherClient ''makeDockerOptionsDir'',
            Output OtherClient ''ConfigureAuth'',
            Output OtherClient ''configureSwarm'']\<rparr>)\<close>
  by code_simp

text \<open>
  C2 (amended).  \<open>Provision\<close> runs its steps in the fixed order set-hostname, base
  packages, OS update, engine install (repository, engine, restart, enable), readiness
  poll, options directory, auth, swarm, and stops at the first step that returns an
  error: it is \<open>runSteps\<close> on \<open>provisionSteps\<close>.  When the steps before some step succeed
  and that step fails with an error in a state, \<open>Provision\<close> returns exactly that error and
  that state: no later step has run and nothing was issued after the failure.  The run
  succeeds exactly when no step fails.  Each of the first five steps only adds calls to
  the trace.  The error is returned as the failing step gave it; nothing names the step.
\<close>

theorem Provision_steps_in_order:
  fixes e :: "'sw env"
  shows "Provision e sw au eo p = runSteps (provisionSteps e sw) (setOptions sw au eo p)
    \<and> (provisionSteps e sw = before @ step # after
         \<and> runSteps before (setOptions sw au eo p) = (None, p1) \<and> step p1 = (Some err, p2)
       \<longrightarrow> Provision e sw au eo p = (Some err, p2)
         \<and> failingStep (provisionSteps e sw) (setOptions sw au eo p) = Some (length before))
    \<and> (fst (Provision e sw au eo p) = None
         \<longleftrightarrow> failingStep (provisionSteps e sw) (setOptions sw au eo p) = None)
    \<and> (step' \<in> set (take 5 (provisionSteps e sw)) \<and> step' q = (r, q1)
       \<longrightarrow> (\<exists>commands. issued q q1 commands))"
  using runSteps_abort[of before "setOptions sw au eo p" p1 step err p2 after]
    failingStep_append[of before "setOptions sw au eo p" p1 step err p2 after]
    early_steps_add[of step' e sw q r q1]
  by (auto simp: Provision_runSteps failingStep_runSteps)

theorem Provision_steps_in_order_witness:
  "provisionSteps (test_env only_yum_update) () =
     [step_SetHostname (test_env only_yum_update), step_BasePackages (test_env only_yum_update)] @
     step_OsUpdate (test_env only_yum_update) #
     [installDocker (test_env only_yum_update),
      WaitFor (test_env only_yum_update) (dockerDaemonResponding (test_env only_yum_update)),
      makeDockerOptionsDir (test_env only_yum_update),
      step_ConfigureAuth (test_env only_yum_update),
      step_configureSwarm (test_env only_yum_update) ()]
   \<and> runSteps [step_SetHostname (test_env only_yum_update), step_BasePackages (test_env only_yum_update)]
         (setOptions () test_authOptions test_engineOptions test_provisioner) =
       (None, test_provisioner_after (test_hostname_commands @ [''sudo yum install -y curl'']))
   \<and> step_OsUpdate (test_env only_yum_update)
         (test_provisioner_after (test_hostname_commands @ [''sudo yum install -y curl''])) =
       (Some (ExternalError ''exit status 1''),
        test_provisioner_after
          (test_hostname_commands @ [''sudo yum install -y curl'', ''sudo yum -y update'']))
   \<and> Provision (test_env only_yum_update) () test_authOptions test_engineOptions test_provisioner =
       (Some (ExternalError ''exit status 1''),
        test_provisioner_after
          (test_hostname_commands @ [''sudo yum install -y curl'', ''sudo yum -y update'']))
   \<and> failingStep (provisionSteps (test_env only_yum_update) ())
         (setOptions () test_authOptions test_engineOptions test_provisioner) = Some 2"
proof -
  let ?e = "test_env only_yum_update"
  let ?p1 = "test_provisioner_after (test_hostname_commands @ [''sudo yum install -y curl''])"
  let ?p2 = "test_provisioner_after
          (test_hostname_commands @ [''sudo yum install -y curl'', ''sudo yum -y update''])"
  have steps: "provisionSteps ?e () =
     [step_SetHostname ?e, step_BasePackages ?e] @ step_OsUpdate ?e #
     [installDocker ?e, WaitFor ?e (dockerDaemonResponding ?e), makeDockerOptionsDir ?e,
      step_ConfigureAuth ?e, step_configureSwarm ?e ()]"
    by (simp add: provisionSteps_def)
  have before: "runSteps [step_SetHostname ?e, step_BasePackages ?e]
         (setOptions () test_authOptions test_engineOptions test_provisioner) = (None, ?p1)"
    by code_simp
  have failing: "step_OsUpdate ?e ?p1 = (Some (ExternalError ''exit status 1''), ?p2)"
    by code_simp
  have "Provision ?e () test_authOptions test_engineOptions test_provisioner =
          (Some (ExternalError ''exit status 1''), ?p2)
      \<and> failingStep (provisionSteps ?e ())
            (setOptions () test_authOptions test_engineOptions test_provisioner) =
          Some (length [step_SetHostname ?e, step_BasePackages ?e])"
    using Provision_steps_in_order
         [where e = ?e and sw = "()" and au = test_authOptions and eo = test_engineOptions
            and p = test_provisioner and before = "[step_SetHostname ?e, step_BasePackages ?e]"
            and step = "step_OsUpdate ?e" and ?p1.0 = ?p1 and ?p2.0 = ?p2
            and err = "ExternalError ''exit status 1''"
            and after = "[installDocker ?e, WaitFor ?e (dockerDaemonResponding ?e),
                          makeDockerOptionsDir ?e, step_ConfigureAuth ?e, step_configureSwarm ?e ()]"
            and step' = "step_OsUpdate ?e" and q = ?p1 and r = "Some (ExternalError ''exit status 1'')"
            and ?q1.0 = ?p2]
       steps before failing
    by blast
  with steps before failing show ?thesis by simp
qed

text \<open>
  C2 as stated fails in one part: the error does not identify the failing step.  On a host
  where every command fails the run stops in step 0, on a host where only the OS update
  fails it stops in step 2, and the caller, with the same arguments, gets the same error.
\<close>

theorem Provision_step_not_identified:
  "fst (Provision (test_env every_command) () test_authOptions test_engineOptions test_provisioner) =
     Some (ExternalError ''exit status 1'')
   \<and> failingStep (provisionSteps (test_env every_command) ())
         (setOptions () test_authOptions test_engineOptions test_provisioner) = Some 0
   \<and> fst (Provision (test_env only_yum_update) () test_authOptions test_engineOptions test_provisioner) =
     Some (ExternalError ''exit status 1'')
   \<and> failingStep (provisionSteps (test_env only_yum_update) ())
         (setOptions () test_authOptions test_engineOptions test_provisioner) = Some 2"
  by code_simp

subsection \<open>C3: the default storage driver\<close>

text \<open>
  C3.  \<open>Provision\<close> stores the caller's engine options with the storage driver replaced
  by "devicemapper" when it is empty, and unchanged otherwise, before the first step.  If
  the three steps before the engine install succeed, the engine options still have this
  value in the state that \<open>installDocker\<close> starts from, and \<open>Provision\<close> continues with
  \<open>installDocker\<close> and the later steps from that state.
\<close>

theorem Provision_default_storage_driver:
  fixes e :: "'sw env"
  shows "EngineOptions (setOptions sw au eo p) =
           eo\<lparr>StorageDriver := (if StorageDriver eo = [] then ''devicemapper'' else StorageDriver eo)\<rparr>
    \<and> (runSteps [step_SetHostname e, step_BasePackages e, step_OsUpdate e] (setOptions sw au eo p) =
           (None, p3)
       \<longrightarrow> EngineOptions p3 =
             eo\<lparr>StorageDriver := (if StorageDriver eo = [] then ''devicemapper'' else StorageDriver eo)\<rparr>
         \<and> Provision e sw au eo p =
             runSteps [installDocker e, WaitFor e (dockerDaemonResponding e), makeDockerOptionsDir e,
                       step_ConfigureAuth e, step_configureSwarm e sw] p3)"
proof -
  let ?s = "setOptions sw au eo p"
  have start: "EngineOptions ?s =
      eo\<lparr>StorageDriver := (if StorageDriver eo = [] then ''devicemapper'' else StorageDriver eo)\<rparr>"
    by (simp add: setOptions_def Let_def)
  have "EngineOptions p3 = EngineOptions ?s \<and>
        Provision e sw au eo p =
             runSteps [installDocker e, WaitFor e (dockerDaemonResponding e), makeDockerOptionsDir e,
                       step_ConfigureAuth e, step_configureSwarm e sw] p3"
    if run: "runSteps [step_SetHostname e, step_BasePackages e, step_OsUpdate e] ?s = (None, p3)"
  proof -
    from run obtain p1 p2 where
      1: "step_SetHostname e ?s = (None, p1)" and
      2: "step_BasePackages e p1 = (None, p2)" and
      3: "step_OsUpdate e p2 = (None, p3)"
      by (auto split: prod.splits option.splits)
    from 1 have "EngineOptions p1 = EngineOptions ?s"
      by (auto simp: step_SetHostname_def dest!: SetHostname_adds issued_fields(1))
    moreover from 2 have "EngineOptions p2 = EngineOptions p1"
      by (auto simp: step_BasePackages_def dest!: installBasePackages_adds issued_fields(1))
    moreover from 3 have "EngineOptions p3 = EngineOptions p2"
      by (auto dest!: step_OsUpdate_adds issued_fields(1))
    moreover have "Provision e sw au eo p =
        runSteps ([step_SetHostname e, step_BasePackages e, step_OsUpdate e] @
                  [installDocker e, WaitFor e (dockerDaemonResponding e), makeDockerOptionsDir e,
                   step_ConfigureAuth e, step_configureSwarm e sw]) ?s"
      by (simp add: Provision_runSteps provisionSteps_def)
    ultimately show ?thesis using run by (simp only: runSteps_append) simp
  qed
  with start show ?thesis by simp
qed


theorem Provision_default_storage_driver_witness:
  "StorageDriver test_engineOptions = []
   \<and> runSteps [step_SetHostname (test_env no_command), step_BasePackages (test_env no_command),
                step_OsUpdate (test_env no_command)]
         (setOptions () test_authOptions test_engineOptions test_provisioner) =
       (None, test_provisioner_after
                (test_hostname_commands @ [''sudo yum install -y curl'', ''sudo yum -y update'']))
   \<and> StorageDriver (EngineOptions (test_provisioner_after
         (test_hostname_commands @ [''sudo yum install -y curl'', ''sudo yum -y update'']))) =
       ''devicemapper''
   \<and> Provision (test_env no_command) () test_authOptions test_engineOptions test_provisioner =
       runSteps [installDocker (test_env no_command),
                 WaitFor (test_env no_command) (dockerDaemonResponding (test_env no_command)),
                 makeDockerOptionsDir (test_env no_command),
                 step_ConfigureAuth (test_env no_command),
                 step_configureSwarm (test_env no_command) ()]
         (test_provisioner_after
            (test_hostname_commands @ [''sudo yum install -y curl'', ''sudo yum -y update'']))"
proof -
  let ?e = "test_env no_command"
  let ?p3 = "test_provisioner_after
          (test_hostname_commands @ [''sudo yum install -y curl'', ''sudo yum -y update''])"
  have run: "runSteps [step_SetHostname ?e, step_BasePackages ?e, step_OsUpdate ?e]
         (setOptions () test_authOptions test_engineOptions test_provisioner) = (None, ?p3)"
    by code_simp
  have empty: "StorageDriver test_engineOptions = []"
    by (simp add: test_engineOptions_def)
  from Provision_default_storage_driver
         [where e = ?e and sw = "()" and au = test_authOptions and eo = test_engineOptions
            and p = test_provisioner and ?p3.0 = ?p3]
       run empty
  show ?thesis by simp
qed


subsection \<open>C5: the daemon reload\<close>

text \<open>
  C5.  The commands that \<open>Service\<close> issues are an initial part of: the daemon-reload
  command followed by the control command, for start and restart; the control command
  alone, for stop, enable and disable.  When \<open>Service\<close> succeeds they are all of it.  So
  a start or restart issues one reload, first, and the control command right after it;
  the other actions issue no reload.  With a driver that prefixes commands, the control
  command is "systemctl VERB NAME" and differs from the reload command.
\<close>

theorem Service_daemon_reload:
  fixes e :: "'sw env"
  assumes "Service e name action p = (r, p1)"
  shows "\<exists>commands.
           issued p p1 commands
         \<and> prefix commands
             (if action = Start \<or> action = Restart
              then [SSHSudo e ''systemctl daemon-reload'',
                    Sprintf (SSHSudo e ''systemctl %s %s'') [ServiceAction_String action, name]]
              else [Sprintf (SSHSudo e ''systemctl %s %s'') [ServiceAction_String action, name]])
         \<and> (r = None \<longrightarrow>
               commands =
                 (if action = Start \<or> action = Restart
                  then [SSHSudo e ''systemctl daemon-reload'',
                        Sprintf (SSHSudo e ''systemctl %s %s'') [ServiceAction_String action, name]]
                  else [Sprintf (SSHSudo e ''systemctl %s %s'') [ServiceAction_String action, name]]))
         \<and> ((\<forall>c. SSHSudo e c = pre @ c) \<and> CHR ''%'' \<notin> set pre \<longrightarrow>
               Sprintf (SSHSudo e ''systemctl %s %s'') [ServiceAction_String action, name] =
                 pre @ ''systemctl '' @ ServiceAction_String action @ '' '' @ name
             \<and> Sprintf (SSHSudo e ''systemctl %s %s'') [ServiceAction_String action, name] \<noteq>
                 SSHSudo e ''systemctl daemon-reload'')"
proof -
  let ?reload = "SSHSudo e ''systemctl daemon-reload''"
  let ?control = "Sprintf (SSHSudo e ''systemctl %s %s'') [ServiceAction_String action, name]"
  have shape: "?control = pre @ ''systemctl '' @ ServiceAction_String action @ '' '' @ name
      \<and> ?control \<noteq> ?reload"
    if "\<forall>c. SSHSudo e c = pre @ c" "CHR ''%'' \<notin> set pre"
    using that by (cases action) (simp_all add: Sprintf_systemctl)
  have control: "\<exists>cs. issued q q1 cs \<and> prefix cs [?control] \<and> (r1 = None \<longrightarrow> cs = [?control])"
    if "SSHCommand e ?control q = (r0, q1)" "r1 = errorOf r0" for q q1 r0 r1
    using that(1)
  proof (cases rule: SSHCommand_cases)
    case (no_client err)
    with that(2) show ?thesis by (intro exI[of _ "[]"]) simp
  next
    case (ran client)
    then show ?thesis by (intro exI[of _ "[?control]"]) simp
  qed
  show ?thesis
  proof (cases "reloadDaemon action")
    case False
    obtain r0 q1 where run: "SSHCommand e ?control p = (r0, q1)" by (cases "SSHCommand e ?control p")
    with assms False have "r = errorOf r0" "p1 = q1"
      by (auto simp: Service_def Let_def split: option.splits)
    with control[OF run, of r] False shape show ?thesis
      by (auto simp: reloadDaemon_iff)
  next
    case True
    obtain r0 q1 where first: "SSHCommand e ?reload p = (r0, q1)" by (cases "SSHCommand e ?reload p")
    show ?thesis
    proof (cases "errorOf r0")
      case (Some err)
      with assms True first have res: "r = Some err" "p1 = q1"
        by (auto simp: Service_def Let_def)
      from first have "\<exists>cs. issued p q1 cs \<and> prefix cs [?reload, ?control]"
      proof (cases rule: SSHCommand_cases)
        case (no_client err)
        then show ?thesis by (intro exI[of _ "[]"]) simp
      next
        case (ran client)
        then show ?thesis by (intro exI[of _ "[?reload]"]) simp
      qed
      with res True shape show ?thesis by (auto simp: reloadDaemon_iff)
    next
      case None
      obtain r2 q2 where second: "SSHCommand e ?control q1 = (r2, q2)"
        by (cases "SSHCommand e ?control q1")
      with assms True first None have res: "r = errorOf r2" "p1 = q2"
        by (auto simp: Service_def Let_def split: option.splits)
      from first None have one: "issued p q1 [?reload]"
        by (cases rule: SSHCommand_cases) simp_all
      from control[OF second, of r] res obtain cs where
        cs: "issued q1 p1 cs" "prefix cs [?control]" "r = None \<longrightarrow> cs = [?control]" by auto
      from issued_trans[OF one cs(1)] cs(2,3)
      have "issued p p1 (?reload # cs) \<and> prefix (?reload # cs) [?reload, ?control]
            \<and> (r = None \<longrightarrow> ?reload # cs = [?reload, ?control])" by simp
      with True shape show ?thesis by (auto simp: reloadDaemon_iff)
    qed
  qed
qed


theorem Service_daemon_reload_witness:
  "Service (test_env no_command) ''docker'' Restart test_provisioner =
     (None, test_provisioner\<lparr>trace :=
        [OutputWithPty NativeClient ''sudo systemctl daemon-reload'',
         OutputWithPty NativeClient ''sudo systemctl restart docker'']\<rparr>)
   \<and> (\<forall>c. SSHSudo (test_env no_command) c = ''sudo '' @ c) \<and> CHR ''%'' \<notin> set ''sudo ''
   \<and> issued test_provisioner
        (test_provisioner\<lparr>trace :=
           [OutputWithPty NativeClient ''sudo systemctl daemon-reload'',
            OutputWithPty NativeClient ''sudo systemctl restart docker'']\<rparr>)
        [''sudo systemctl daemon-reload'', ''sudo systemctl restart docker'']"
proof -
  have run: "Service (test_env no_command) ''docker'' Restart test_provisioner =
     (None, test_provisioner\<lparr>trace :=
        [OutputWithPty NativeClient ''sudo systemctl daemon-reload'',
         OutputWithPty NativeClient ''sudo systemctl restart docker'']\<rparr>)"
    by code_simp
  have sudo: "\<forall>c. SSHSudo (test_env no_command) c = ''sudo '' @ c"
    by (simp add: test_env_def)
  from Service_daemon_reload[OF run, where pre = "''sudo ''"] sudo
  show ?thesis using run by auto
qed

subsection \<open>C8: the readiness probe\<close>

text \<open>
  C8.  \<open>dockerDaemonResponding\<close> returns a truth value and nothing else.  Without a
  client it answers false and issues nothing; with a client it issues the one command
  "docker version" and answers true exactly when that command succeeds.  A false answer
  makes the poll of \<open>WaitFor\<close> try again rather than stop the run.
\<close>

theorem dockerDaemonResponding_total:
  fixes e :: "'sw env"
  shows "(GetSSHClientFromDriver e (trace p) = Inl err \<longrightarrow> dockerDaemonResponding e p = (False, p))
    \<and> (GetSSHClientFromDriver e (trace p) = Inr client \<longrightarrow>
         dockerDaemonResponding e p =
           (case ssh_result e (trace p) (client_call client (SSHSudo e ''docker version'')) of
              Inl failure \<Rightarrow> False
            | Inr out \<Rightarrow> True,
            p\<lparr>trace := trace p @ [client_call client (SSHSudo e ''docker version'')]\<rparr>))
    \<and> (\<exists>commands. issued p (snd (dockerDaemonResponding e p)) commands
          \<and> prefix commands [SSHSudo e ''docker version''])
    \<and> (\<not> fst (dockerDaemonResponding e p) \<longrightarrow>
         WaitFor_loop (Suc n) (dockerDaemonResponding e) p =
           WaitFor_loop n (dockerDaemonResponding e) (snd (dockerDaemonResponding e p)))"
proof -
  obtain r p1 where run: "SSHCommand e (SSHSudo e ''docker version'') p = (r, p1)"
    by (cases "SSHCommand e (SSHSudo e ''docker version'') p")
  then have eq: "dockerDaemonResponding e p = (case r of Inl failure \<Rightarrow> False | Inr out \<Rightarrow> True, p1)"
    by (cases r) (simp_all add: dockerDaemonResponding_def)
  from run have "\<exists>commands. issued p p1 commands \<and> prefix commands [SSHSudo e ''docker version'']"
  proof (cases rule: SSHCommand_cases)
    case (no_client err)
    then show ?thesis by (intro exI[of _ "[]"]) simp
  next
    case (ran client)
    then show ?thesis by (intro exI[of _ "[SSHSudo e ''docker version'']"]) simp
  qed
  moreover have "GetSSHClientFromDriver e (trace p) = Inl err \<longrightarrow> dockerDaemonResponding e p = (False, p)"
    by (simp add: dockerDaemonResponding_def SSHCommand_def)
  moreover have "GetSSHClientFromDriver e (trace p) = Inr client \<longrightarrow>
         dockerDaemonResponding e p =
           (case ssh_result e (trace p) (client_call client (SSHSudo e ''docker version'')) of
              Inl failure \<Rightarrow> False
            | Inr out \<Rightarrow> True,
            p\<lparr>trace := trace p @ [client_call client (SSHSudo e ''docker version'')]\<rparr>)"
    by (simp add: dockerDaemonResponding_def SSHCommand_def split: sum.splits)
  moreover have "\<not> fst (dockerDaemonResponding e p) \<longrightarrow>
         WaitFor_loop (Suc n) (dockerDaemonResponding e) p =
           WaitFor_loop n (dockerDaemonResponding e) (snd (dockerDaemonResponding e p))"
    by (cases "dockerDaemonResponding e p") auto
  ultimately show ?thesis using eq by simp
qed

theorem dockerDaemonResponding_total_witness:
  "GetSSHClientFromDriver (test_env every_command) (trace test_provisioner) = Inr NativeClient
   \<and> dockerDaemonResponding (test_env every_command) test_provisioner =
       (False, test_provisioner\<lparr>trace := [OutputWithPty NativeClient ''sudo docker version'']\<rparr>)
   \<and> dockerDaemonResponding (test_env no_command) test_provisioner =
       (True, test_provisioner\<lparr>trace := [OutputWithPty NativeClient ''sudo docker version'']\<rparr>)
   \<and> WaitFor_loop (Suc 0) (dockerDaemonResponding (test_env every_command)) test_provisioner =
       WaitFor_loop 0 (dockerDaemonResponding (test_env every_command))
         (test_provisioner\<lparr>trace := [OutputWithPty NativeClient ''sudo docker version'']\<rparr>)"
  using dockerDaemonResponding_total
          [where e = "test_env every_command" and p = test_provisioner and client = NativeClient
             and n = 0]
        dockerDaemonResponding_total
          [where e = "test_env no_command" and p = test_provisioner and client = NativeClient]
  by (simp add: test_env_def no_command_def every_command_def client_call_def test_provisioner_def NewRedHatProvisioner_def)

subsection \<open>C10: the provider label\<close>

lemma GenerateDockerOptions_snd:
  "snd (GenerateDockerOptions e dockerPort p) =
     p\<lparr>EngineOptions :=
         (EngineOptions p)\<lparr>Labels := Labels (EngineOptions p) @ [''provider='' @ DriverName e]\<rparr>\<rparr>"
  by (simp add: GenerateDockerOptions_def Let_def fmtVerb_def split: option.splits)

lemma GenerateDockerOptions_fst:
  "fst (GenerateDockerOptions e dockerPort p) =
     (case template_Parse e ''engineConfig'' engineConfigTemplate of
        Some err \<Rightarrow> Inl err
      | None \<Rightarrow>
          Inr \<lparr> opts_EngineOptions =
                  render_engineConfig
                    \<lparr> DockerPort = dockerPort,
                      ctx_AuthOptions = AuthOptions p,
                      ctx_EngineOptions =
                        (EngineOptions p)
                          \<lparr>Labels := Labels (EngineOptions p) @ [''provider='' @ DriverName e]\<rparr>,
                      ctx_DockerOptionsDir = DockerOptionsDir p \<rparr>,
                opts_EngineOptionsPath = DaemonOptionsFile p \<rparr>)"
  by (simp add: GenerateDockerOptions_def Let_def fmtVerb_def split: option.splits)

lemma GenerateDockerOptions_times_eq:
  "GenerateDockerOptions_times n e dockerPort p =
     p\<lparr>EngineOptions :=
         (EngineOptions p)
           \<lparr>Labels := Labels (EngineOptions p) @ replicate n (''provider='' @ DriverName e)\<rparr>\<rparr>"
proof (induction n arbitrary: p)
  case 0
  show ?case by simp
next
  case (Suc n)
  show ?case
    by (simp add: Suc GenerateDockerOptions_snd replicate_append_same)
qed

text \<open>
  C10.  Every call of \<open>GenerateDockerOptions\<close>, also one that fails, changes the provisioner
  in one way: the label "provider=DRIVER" is put at the end of the stored labels.  After
  \<open>n\<close> calls the stored labels are the earlier ones followed by \<open>n\<close> copies of it, and the
  next call renders its configuration from the earlier labels followed by \<open>n + 1\<close> copies.
\<close>

theorem GenerateDockerOptions_appends_provider_label:
  fixes e :: "'sw env"
  shows "snd (GenerateDockerOptions e dockerPort p) =
           p\<lparr>EngineOptions :=
               (EngineOptions p)\<lparr>Labels := Labels (EngineOptions p) @ [''provider='' @ DriverName e]\<rparr>\<rparr>
    \<and> Labels (EngineOptions (GenerateDockerOptions_times n e dockerPort p)) =
        Labels (EngineOptions p) @ replicate n (''provider='' @ DriverName e)
    \<and> fst (GenerateDockerOptions e dockerPort (GenerateDockerOptions_times n e dockerPort p)) =
        (case template_Parse e ''engineConfig'' engineConfigTemplate of
           Some err \<Rightarrow> Inl err
         | None \<Rightarrow>
             Inr \<lparr> opts_EngineOptions =
                     render_engineConfig
                       \<lparr> DockerPort = dockerPort,
                         ctx_AuthOptions = AuthOptions p,
                         ctx_EngineOptions =
                           (EngineOptions p)
                             \<lparr>Labels := Labels (EngineOptions p) @
                                         replicate (Suc n) (''provider='' @ DriverName e)\<rparr>,
                         ctx_DockerOptionsDir = DockerOptionsDir p \<rparr>,
                   opts_EngineOptionsPath = DaemonOptionsFile p \<rparr>)"
  by (simp add: GenerateDockerOptions_snd GenerateDockerOptions_fst GenerateDockerOptions_times_eq
        replicate_append_same split: option.splits)

subsection \<open>C9: errors of the template library\<close>



subsection \<open>C7: the rendered service unit\<close>

lemma hexdigit_not_newline: "hexdigit n \<noteq> CHR 0x0A"
proof -
  have "hexdigit n \<in> set ''0123456789abcdef''"
    unfolding hexdigit_def by (rule nth_mem) simp
  then show ?thesis by auto
qed

lemma quoteChar_single_line: "CHR 0x0A \<notin> set (quoteChar c)"
  using hexdigit_not_newline[of "of_char c div 16"] hexdigit_not_newline[of "of_char c"]
  by (auto simp: quoteChar_def)

lemma Quote_single_line: "single_line (Quote s)"
  by (auto simp: single_line_def Quote_def quoteChar_single_line)

lemma digit_not_newline: "(k::nat) < 10 \<Longrightarrow> char_of (48 + k) \<noteq> CHR 0x0A"
proof
  assume "k < 10" and eq: "char_of (48 + k) = CHR 0x0A"
  from eq have "(of_char (char_of (48 + k) :: char) :: nat) = of_char (CHR 0x0A)" by simp
  with \<open>k < 10\<close> show False by simp
qed

lemma digits_single_line: "CHR 0x0A \<notin> set (digits n)"
proof (induction n rule: digits.induct)
  case (1 n)
  show ?case
  proof (cases "n < 10")
    case True
    then show ?thesis using digit_not_newline[of n] by (simp add: digits.simps[of n])
  next
    case False
    with 1 digit_not_newline[of "n mod 10"] show ?thesis
      by (simp add: digits.simps[of n])
  qed
qed

lemma itoa_single_line: "single_line (itoa i)"
  by (simp add: single_line_def itoa_def digits_single_line)

lemma single_line_append [simp]: "single_line (a @ b) \<longleftrightarrow> single_line a \<and> single_line b"
  by (auto simp: single_line_def)

lemma single_line_Cons [simp]: "single_line (c # s) \<longleftrightarrow> c \<noteq> CHR 0x0A \<and> single_line s"
  by (auto simp: single_line_def)

lemma single_line_Nil [simp]: "single_line []"
  by (simp add: single_line_def)

lemma single_line_range_over:
  "(\<And>x. x \<in> set xs \<Longrightarrow> single_line (body x)) \<Longrightarrow> single_line (range_over xs body)"
  by (induction xs) (simp_all add: range_over_def)

lemma lines_from_line:
  "single_line l \<Longrightarrow> lines_from cur (l @ CHR 0x0A # rest) = (cur @ l) # lines_from [] rest"
  by (induction l arbitrary: cur) simp_all

lemma Environment_line_single: "single_line (Environment_line c)"
  unfolding Environment_line_def
  by (simp add: single_line_range_over fmtVerb_def Quote_single_line)

lemma ExecStart_line_single:
  assumes "list_all single_line (copied_values c)"
  shows "single_line (ExecStart_line c)"
  using assms unfolding ExecStart_line_def copied_values_def
  by (simp add: itoa_single_line single_line_range_over list_all_iff)

lemma lines_of_render_engineConfig:
  assumes "list_all single_line (copied_values c)"
  shows "lines_of (render_engineConfig c) =
           [''[Service]'', ExecStart_line c, ''MountFlags=slave'', ''LimitNOFILE=1048576'',
            ''LimitNPROC=1048576'', ''LimitCORE=infinity'', Environment_line c]"
proof -
  have 1: "lines_from [] (Environment_line c @ ''\<newline>'') = [Environment_line c]"
    using lines_from_line[OF Environment_line_single, of "[]" c "[]"] by simp
  have 2: "lines_from [] (ExecStart_line c @ CHR 0x0A # rest) = ExecStart_line c # lines_from [] rest"
    for rest
    using lines_from_line[OF ExecStart_line_single[OF assms], of "[]" rest] by simp
  show ?thesis
    unfolding lines_of_def render_engineConfig_def
    by (simp add: 1 2)
qed


text \<open>
  C7 (amended).  When \<open>Parse\<close> reports no error and none of the values that
  the template copies (storage driver, the three certificate paths, labels with the
  provider label, insecure registries, registry mirrors, arbitrary flags) contains a
  newline, the rendered text has exactly seven lines: the section header, the
  \<open>ExecStart\<close> line, four fixed lines and the \<open>Environment\<close> line.  The \<open>ExecStart\<close>
  line carries, after the fixed flags, one "--label V " for each label in order, then one
  "--insecure-registry V " for each registry, one "--registry-mirror V " for each mirror
  and one "--V " for each arbitrary flag; the \<open>Environment\<close> line carries each variable
  quoted by \<open>%q\<close> and followed by a space.  The \<open>Environment\<close> line is a single line for
  every environment, since \<open>%q\<close> escapes newlines.
\<close>

theorem GenerateDockerOptions_single_line_directives:
  fixes e :: "'sw env"
  assumes "template_Parse e ''engineConfig'' engineConfigTemplate = None"
    and "c = \<lparr> DockerPort = dockerPort,
               ctx_AuthOptions = AuthOptions p,
               ctx_EngineOptions =
                 (EngineOptions p)\<lparr>Labels := Labels (EngineOptions p) @ [''provider='' @ DriverName e]\<rparr>,
               ctx_DockerOptionsDir = DockerOptionsDir p \<rparr>"
    and "list_all single_line (copied_values c)"
  shows "fst (GenerateDockerOptions e dockerPort p) =
           Inr \<lparr> opts_EngineOptions = render_engineConfig c,
                 opts_EngineOptionsPath = DaemonOptionsFile p \<rparr>
    \<and> lines_of (render_engineConfig c) =
        [''[Service]'', ExecStart_line c, ''MountFlags=slave'', ''LimitNOFILE=1048576'',
         ''LimitNPROC=1048576'', ''LimitCORE=infinity'', Environment_line c]
    \<and> ExecStart_line c =
        ''ExecStart=/usr/bin/docker -d -H tcp://0.0.0.0:'' @ itoa dockerPort @
        '' -H unix:///var/run/docker.sock --storage-driver '' @ StorageDriver (EngineOptions p) @
        '' --tlsverify --tlscacert '' @ CaCertRemotePath (AuthOptions p) @
        '' --tlscert '' @ ServerCertRemotePath (AuthOptions p) @
        '' --tlskey '' @ ServerKeyRemotePath (AuthOptions p) @ '' '' @
        concat (map (\<lambda>x. ''--label '' @ x @ '' '')
                  (Labels (EngineOptions p) @ [''provider='' @ DriverName e])) @
        concat (map (\<lambda>x. ''--insecure-registry '' @ x @ '' '') (InsecureRegistry (EngineOptions p))) @
        concat (map (\<lambda>x. ''--registry-mirror '' @ x @ '' '') (RegistryMirror (EngineOptions p))) @
        concat (map (\<lambda>x. ''--'' @ x @ '' '') (ArbitraryFlags (EngineOptions p)))
    \<and> Environment_line c =
        ''Environment='' @ concat (map (\<lambda>x. Quote x @ '' '') (Env (EngineOptions p)))
    \<and> single_line (ExecStart_line c) \<and> single_line (Environment_line c)"
proof -
  have "fst (GenerateDockerOptions e dockerPort p) =
           Inr \<lparr> opts_EngineOptions = render_engineConfig c,
                 opts_EngineOptionsPath = DaemonOptionsFile p \<rparr>"
    using assms(1,2) by (simp add: GenerateDockerOptions_fst)
  moreover note lines_of_render_engineConfig[OF assms(3)]
  moreover have "ExecStart_line c =
        ''ExecStart=/usr/bin/docker -d -H tcp://0.0.0.0:'' @ itoa dockerPort @
        '' -H unix:///var/run/docker.sock --storage-driver '' @ StorageDriver (EngineOptions p) @
        '' --tlsverify --tlscacert '' @ CaCertRemotePath (AuthOptions p) @
        '' --tlscert '' @ ServerCertRemotePath (AuthOptions p) @
        '' --tlskey '' @ ServerKeyRemotePath (AuthOptions p) @ '' '' @
        concat (map (\<lambda>x. ''--label '' @ x @ '' '')
                  (Labels (EngineOptions p) @ [''provider='' @ DriverName e])) @
        concat (map (\<lambda>x. ''--insecure-registry '' @ x @ '' '') (InsecureRegistry (EngineOptions p))) @
        concat (map (\<lambda>x. ''--registry-mirror '' @ x @ '' '') (RegistryMirror (EngineOptions p))) @
        concat (map (\<lambda>x. ''--'' @ x @ '' '') (ArbitraryFlags (EngineOptions p)))"
    using assms(2) by (simp add: ExecStart_line_def range_over_def)
  moreover have "Environment_line c =
        ''Environment='' @ concat (map (\<lambda>x. Quote x @ '' '') (Env (EngineOptions p)))"
    using assms(2) by (simp add: Environment_line_def range_over_def fmtVerb_def)
  moreover note ExecStart_line_single[OF assms(3)] Environment_line_single[of c]
  ultimately show ?thesis by blast
qed

theorem GenerateDockerOptions_single_line_directives_witness:
  \<open>template_Parse (test_env no_command) ''engineConfig'' engineConfigTemplate = None
   \<and> list_all single_line (copied_values test_context)
   \<and> fst (GenerateDockerOptions (test_env no_command) 2376 test_provisioner) =
       Inr \<lparr> opts_EngineOptions = render_engineConfig test_context,
             opts_EngineOptionsPath = ''/etc/systemd/system/docker.service'' \<rparr>
   \<and> lines_of (render_engineConfig test_context) =
       [''[Service]'',
        ''ExecStart=/usr/bin/docker -d -H tcp://0.0.0.0:2376 -H unix:///var/run/docker.sock '' @
        ''--storage-driver  --tlsverify --tlscacert /etc/docker/ca.pem '' @
        ''--tlscert /etc/docker/server.pem --tlskey /etc/docker/server-key.pem '' @
        ''--label a --label b --label provider=virtualbox --insecure-registry r1 '',
        ''MountFlags=slave'', ''LimitNOFILE=1048576'', ''LimitNPROC=1048576'', ''LimitCORE=infinity'',
        ''Environment="X=1" '']\<close>
proof -
  have parse: "template_Parse (test_env no_command) ''engineConfig'' engineConfigTemplate = None"
    by (simp add: test_env_def)
  have ctx: "test_context =
      \<lparr> DockerPort = 2376,
        ctx_AuthOptions = AuthOptions test_provisioner,
        ctx_EngineOptions =
          (EngineOptions test_provisioner)
            \<lparr>Labels := Labels (EngineOptions test_provisioner) @
                        [''provider='' @ DriverName (test_env no_command)]\<rparr>,
        ctx_DockerOptionsDir = DockerOptionsDir test_provisioner \<rparr>"
    by (simp add: test_context_def test_provisioner_def NewRedHatProvisioner_def test_env_def
          test_engineOptions_def)
  have single: "list_all single_line (copied_values test_context)"
    by code_simp
  have start: \<open>ExecStart_line test_context =
        ''ExecStart=/usr/bin/docker -d -H tcp://0.0.0.0:2376 -H unix:///var/run/docker.sock '' @
        ''--storage-driver  --tlsverify --tlscacert /etc/docker/ca.pem '' @
        ''--tlscert /etc/docker/server.pem --tlskey /etc/docker/server-key.pem '' @
        ''--label a --label b --label provider=virtualbox --insecure-registry r1 ''\<close>
    by code_simp
  have environment: \<open>Environment_line test_context = ''Environment="X=1" ''\<close>
    by code_simp
  have path: "DaemonOptionsFile test_provisioner = ''/etc/systemd/system/docker.service''"
    by (simp add: test_provisioner_def NewRedHatProvisioner_def)
  from GenerateDockerOptions_single_line_directives[OF parse ctx single]
  show ?thesis using parse single start environment path by simp
qed

text \<open>
  C7 as stated, for every context, fails: a label is copied as it is, so a label with a
  newline breaks the \<open>ExecStart\<close> directive into two lines.
\<close>

theorem GenerateDockerOptions_newline_in_label:
  \<open>fst (GenerateDockerOptions (test_env no_command) 2376
          (test_provisioner\<lparr>EngineOptions := test_engineOptions\<lparr>Labels := [''a\<newline>b'']\<rparr>\<rparr>)) =
     Inr \<lparr> opts_EngineOptions =
             render_engineConfig
               (test_context\<lparr>ctx_EngineOptions :=
                  test_engineOptions\<lparr>Labels := [''a\<newline>b'', ''provider=virtualbox'']\<rparr>\<rparr>),
           opts_EngineOptionsPath = ''/etc/systemd/system/docker.service'' \<rparr>
   \<and> lines_of
        (render_engineConfig
           (test_context\<lparr>ctx_EngineOptions :=
              test_engineOptions\<lparr>Labels := [''a\<newline>b'', ''provider=virtualbox'']\<rparr>\<rparr>)) =
       [''[Service]'',
        ''ExecStart=/usr/bin/docker -d -H tcp://0.0.0.0:2376 -H unix:///var/run/docker.sock '' @
        ''--storage-driver  --tlsverify --tlscacert /etc/docker/ca.pem '' @
        ''--tlscert /etc/docker/server.pem --tlskey /etc/docker/server-key.pem '' @
        ''--label a'',
        ''b --label provider=virtualbox --insecure-registry r1 '',
        ''MountFlags=slave'', ''LimitNOFILE=1048576'', ''LimitNPROC=1048576'', ''LimitCORE=infinity'',
        ''Environment="X=1" '']
   \<and> \<not> single_line
         (ExecStart_line
            (test_context\<lparr>ctx_EngineOptions :=
               test_engineOptions\<lparr>Labels := [''a\<newline>b'', ''provider=virtualbox'']\<rparr>\<rparr>))\<close>
  by code_simp

subsection \<open>C6: the loopback line of /etc/hosts\<close>

lemma Sprintf_char: "c \<noteq> CHR ''%'' \<Longrightarrow> Sprintf (c # fs) as = c # Sprintf fs as"
  by (cases fs) simp_all

lemma Sprintf_hostname:
  assumes "CHR ''%'' \<notin> set pre"
  shows \<open>Sprintf (pre @ ''sh -c 'hostname %s && echo %q | tee /etc/hostname'' @ [CHR 0x27]) [h, h] =
           hostname_command pre h\<close>
  using assms by (simp add: Sprintf_plain hostname_command_def fmtVerb_def)

lemma Sprintf_hosts:
  assumes "CHR ''%'' \<notin> set pre"
  shows \<open>Sprintf
           (Sprintf ''if grep -xq 127.0.1.1.* /etc/hosts; then %s; else %s; fi''
              [pre @ ''sh -c "sed -i 's/^127.0.1.1.*/127.0.1.1 %s/g' /etc/hosts"'',
               pre @ ''sh -c "echo '127.0.1.1 %s' | tee -a /etc/hosts"''])
           [h, h] =
         hosts_command pre h\<close>
  using assms
  by (simp add: Sprintf_plain Sprintf_char hosts_command_def fmtVerb_def)

lemma SetHostname_commands:
  assumes "\<forall>c. SSHSudo e c = pre @ c" "CHR ''%'' \<notin> set pre" "SetHostname e h p = (None, p1)"
  shows "issued p p1 [hostname_command pre h, hosts_command pre h]"
proof -
  have c1: \<open>Sprintf (SSHSudo e (''sh -c 'hostname %s && echo %q | tee /etc/hostname'' @ [CHR 0x27]))
              [h, h] = hostname_command pre h\<close>
    unfolding assms(1)[rule_format] by (rule Sprintf_hostname[OF assms(2)])
  have c2: \<open>Sprintf
           (Sprintf ''if grep -xq 127.0.1.1.* /etc/hosts; then %s; else %s; fi''
              [SSHSudo e ''sh -c "sed -i 's/^127.0.1.1.*/127.0.1.1 %s/g' /etc/hosts"'',
               SSHSudo e ''sh -c "echo '127.0.1.1 %s' | tee -a /etc/hosts"''])
           [h, h] = hosts_command pre h\<close>
    unfolding assms(1)[rule_format] by (rule Sprintf_hosts[OF assms(2)])
  obtain r0 q where first: "SSHCommand e (hostname_command pre h) p = (r0, q)"
    by (cases "SSHCommand e (hostname_command pre h) p")
  obtain r1 q1 where second: "SSHCommand e (hosts_command pre h) q = (r1, q1)"
    by (cases "SSHCommand e (hosts_command pre h) q")
  from assms(3) first second have ok: "errorOf r0 = None" "errorOf r1 = None" "p1 = q1"
    unfolding SetHostname_def Let_def c1 c2
    by (auto split: option.splits)
  from first ok(1) have "issued p q [hostname_command pre h]"
    by (cases rule: SSHCommand_cases) simp_all
  moreover from second ok(2) have "issued q q1 [hosts_command pre h]"
    by (cases rule: SSHCommand_cases) simp_all
  ultimately show ?thesis using ok(3) issued_trans by fastforce
qed

lemma characters_ascii_Cons:
  "ascii_char c \<Longrightarrow> characters cs (c # s) = map_option (\<lambda>chs. [c] # chs) (characters cs s)"
  by (cases cs) (simp_all add: characters_def ascii_char_def)

lemma clean_characters:
  assumes "clean_text cs l"
  obtains chs where "characters cs l = Some chs" "concat chs = l"
  using assms by (auto simp: clean_text_def whole_line_def)

lemma whole_line_ascii_Cons:
  assumes "ascii_char c" "whole_line cs s"
  shows "whole_line cs (c # s)"
  using assms by (auto simp: whole_line_def characters_ascii_Cons)

lemma clean_modelled: "clean_text cs l \<Longrightarrow> modelled_text cs l"
  by (auto simp: clean_text_def modelled_text_def whole_line_def)

lemma plain_modelled: "plain_hostname cs h \<Longrightarrow> modelled_hostname cs h"
  by (simp add: plain_hostname_def modelled_hostname_def clean_modelled)

lemma new_line_clean:
  assumes "plain_hostname cs h"
  shows "clean_text cs (''127.0.1.1 '' @ h)"
proof -
  from assms have "whole_line cs h" by (simp add: plain_hostname_def clean_text_def)
  then have "whole_line cs (''127.0.1.1 '' @ h)"
    by (simp add: whole_line_ascii_Cons ascii_char_def byte_def)
  with assms show ?thesis by (simp add: plain_hostname_def clean_text_def)
qed

lemma new_line_loopback:
  assumes "plain_hostname cs h"
  shows "loopback_line cs (''127.0.1.1 '' @ h)"
proof -
  from assms obtain chs where "characters cs h = Some chs"
    by (auto simp: plain_hostname_def elim: clean_characters)
  then show ?thesis
    by (simp add: loopback_line_def loopback_pattern_def characters_ascii_Cons ascii_char_def
        byte_def)
qed

lemma new_line_loopback_cons [simp]:
  "plain_hostname cs h \<Longrightarrow>
   loopback_line cs (CHR ''1'' # CHR ''2'' # CHR ''7'' # CHR ''.'' # CHR ''0'' # CHR ''.'' #
                     CHR ''1'' # CHR ''.'' # CHR ''1'' # CHR '' '' # h)"
  using new_line_loopback[of cs h] by simp

lemma sed_replacement_plain:
  assumes "CHR ''&'' \<notin> set h"
  shows "sed_replacement h matched = ''127.0.1.1 '' @ h"
proof -
  have "concat (map (\<lambda>c. if c = CHR ''&'' then matched else [c]) xs) = xs"
    if "CHR ''&'' \<notin> set xs" for xs
    using that by (induction xs) auto
  from this[of "''127.0.1.1 '' @ h"] assms show ?thesis
    by (simp add: sed_replacement_def)
qed

lemma sed_clean:
  assumes "clean_text cs l" "plain_hostname cs h"
  shows "sed_substitute cs h l = (if loopback_line cs l then ''127.0.1.1 '' @ h else l)"
proof -
  from assms(1) obtain chs where "characters cs l = Some chs" "concat chs = l"
    by (rule clean_characters)
  with assms(2) show ?thesis
    by (simp add: sed_substitute_def loopback_line_def sed_replacement_plain plain_hostname_def)
qed

lemma grep_selects_clean:
  assumes "clean_text cs l"
  shows "grep_selects cs loopback_pattern l = loopback_line cs l"
proof -
  from assms obtain chs where "characters cs l = Some chs" "concat chs = l"
    by (rule clean_characters)
  then show ?thesis by (simp add: grep_selects_def loopback_line_def)
qed

lemma sed_result_clean:
  "clean_text cs l \<Longrightarrow> plain_hostname cs h \<Longrightarrow> clean_text cs (sed_substitute cs h l)"
  using new_line_clean[of cs h] by (simp add: sed_clean)

lemma filter_sed:
  assumes "list_all (clean_text cs) ls" "plain_hostname cs h"
  shows "filter (loopback_line cs) (map (sed_substitute cs h) ls) =
           replicate (length (filter (loopback_line cs) ls)) (''127.0.1.1 '' @ h)"
  using assms by (induction ls) (simp_all add: sed_clean)

lemma map_sed_none:
  assumes "list_all (clean_text cs) ls" "plain_hostname cs h" "filter (loopback_line cs) ls = []"
  shows "map (sed_substitute cs h) ls = ls"
  using assms by (induction ls) (auto simp: sed_clean split: if_splits)

lemma map_sed_idem:
  assumes "list_all (clean_text cs) ls" "plain_hostname cs h"
  shows "map (sed_substitute cs h) (map (sed_substitute cs h) ls) = map (sed_substitute cs h) ls"
  using assms new_line_clean[of cs h] by (induction ls) (simp_all add: sed_clean)

lemma grep_clean:
  assumes "list_all (clean_text cs) ls"
  shows "list_ex (grep_selects cs loopback_pattern) ls \<longleftrightarrow> filter (loopback_line cs) ls \<noteq> []"
  using assms by (induction ls) (auto simp: grep_selects_clean)

text \<open>One run, without a name for the shell to expand the pattern to, on a clean file.\<close>

lemma hosts_script_once:
  assumes "glob_matches r = []" "plain_hostname (host_charset r) h"
    "list_all (clean_text (host_charset r)) (complete_lines f)" "last_partial f = []"
  shows "\<exists>f1. hosts_script r h f = Some f1 \<and> last_partial f1 = []
      \<and> list_all (clean_text (host_charset r)) (complete_lines f1)
      \<and> loopback_lines r f1 =
          replicate (max 1 (length (loopback_lines r f))) (''127.0.1.1 '' @ h)
      \<and> hosts_script r h f1 = Some f1"
proof -
  let ?cs = "host_charset r"
  have modelled: "modelled_hostname ?cs h" "list_all (modelled_text ?cs) (complete_lines f)"
    using assms(2,3) by (auto simp: plain_modelled list_all_iff clean_modelled)
  show ?thesis
  proof (cases "filter (loopback_line ?cs) (complete_lines f) = []")
    case True
    let ?f1 = "\<lparr> complete_lines = complete_lines f @ [''127.0.1.1 '' @ h], last_partial = [] \<rparr>"
    have clean1: "list_all (clean_text ?cs) (complete_lines ?f1)"
      using assms(2,3) new_line_clean[of ?cs h] by simp
    then have modelled1: "list_all (modelled_text ?cs) (complete_lines ?f1)"
      by (auto simp: list_all_iff clean_modelled)
    from assms modelled True have 1: "hosts_script r h f = Some ?f1"
      by (simp add: hosts_script_def file_lines_def grep_pattern_def grep_clean)
    have grep1: "list_ex (grep_selects ?cs loopback_pattern) (complete_lines ?f1)"
      unfolding grep_clean[OF clean1] using assms(2) by simp
    have "map (sed_substitute ?cs h) (complete_lines ?f1) = complete_lines ?f1"
      using map_sed_none[OF assms(3,2) True] new_line_clean[OF assms(2)] assms(2)
      by (simp add: sed_clean)
    with assms(1) modelled(1) modelled1 grep1 have 2: "hosts_script r h ?f1 = Some ?f1"
      by (simp add: hosts_script_def file_lines_def grep_pattern_def)
    from assms True have 3: "loopback_lines r ?f1 =
        replicate (max 1 (length (loopback_lines r f))) (''127.0.1.1 '' @ h)"
      by (simp add: loopback_lines_def file_lines_def)
    from 1 2 3 clean1 show ?thesis by simp
  next
    case False
    let ?f1 = "\<lparr> complete_lines = map (sed_substitute ?cs h) (complete_lines f),
                  last_partial = [] \<rparr>"
    have clean1: "list_all (clean_text ?cs) (complete_lines ?f1)"
      using assms(2,3) by (auto simp: list_all_iff sed_result_clean)
    then have modelled1: "list_all (modelled_text ?cs) (complete_lines ?f1)"
      by (auto simp: list_all_iff clean_modelled)
    from assms modelled False have 1: "hosts_script r h f = Some ?f1"
      by (simp add: hosts_script_def file_lines_def grep_pattern_def grep_clean)
    from False have ne: "filter (loopback_line ?cs) (complete_lines ?f1) \<noteq> []"
      by (simp add: filter_sed[OF assms(3,2)])
    have grep1: "list_ex (grep_selects ?cs loopback_pattern) (complete_lines ?f1)"
      unfolding grep_clean[OF clean1] using ne .
    with assms(1) modelled(1) modelled1 map_sed_idem[OF assms(3,2)]
    have 2: "hosts_script r h ?f1 = Some ?f1"
      by (simp add: hosts_script_def file_lines_def grep_pattern_def)
    from False have "1 \<le> length (filter (loopback_line ?cs) (complete_lines f))"
      by (cases "filter (loopback_line ?cs) (complete_lines f)") simp_all
    with assms have 3: "loopback_lines r ?f1 =
        replicate (max 1 (length (loopback_lines r f))) (''127.0.1.1 '' @ h)"
      by (simp add: loopback_lines_def file_lines_def filter_sed[OF assms(3,2)] max_def)
    from 1 2 3 clean1 show ?thesis by simp
  qed
qed

lemma hosts_scripts_snoc:
  "hosts_scripts r (hs @ [h]) f =
     (case hosts_scripts r hs f of None \<Rightarrow> None | Some f1 \<Rightarrow> hosts_script r h f1)"
  by (induction hs arbitrary: f) (auto split: option.splits)

lemma hosts_scripts_many:
  assumes "glob_matches r = []" "list_all (plain_hostname (host_charset r)) hs"
    "list_all (clean_text (host_charset r)) (complete_lines f)" "last_partial f = []"
  shows "\<exists>f1. hosts_scripts r hs f = Some f1 \<and> last_partial f1 = []
      \<and> list_all (clean_text (host_charset r)) (complete_lines f1)
      \<and> length (loopback_lines r f1) =
          (if hs = [] then length (loopback_lines r f)
           else max 1 (length (loopback_lines r f)))"
  using assms(2-4)
proof (induction hs arbitrary: f)
  case Nil
  then show ?case by simp
next
  case (Cons h hs)
  from Cons.prems have plain: "plain_hostname (host_charset r) h"
    "list_all (plain_hostname (host_charset r)) hs" by simp_all
  from hosts_script_once[OF assms(1) plain(1) Cons.prems(2,3)] obtain f1 where
    f1: "hosts_script r h f = Some f1" "last_partial f1 = []"
      "list_all (clean_text (host_charset r)) (complete_lines f1)"
      "length (loopback_lines r f1) = max 1 (length (loopback_lines r f))"
    by (auto simp: length_replicate)
  from Cons.IH[OF plain(2) f1(3,2)] obtain f2 where
    "hosts_scripts r hs f1 = Some f2" "last_partial f2 = []"
    "list_all (clean_text (host_charset r)) (complete_lines f2)"
    "length (loopback_lines r f2) =
       (if hs = [] then length (loopback_lines r f1) else max 1 (length (loopback_lines r f1)))"
    by blast
  with f1 show ?case by (auto simp: max_def)
qed

text \<open>
  C6 (amended).  Take a remote host in the C locale or a UTF-8 locale whose working
  directory has no name that the shell pattern \<open>127.0.1.1.*\<close> matches, host names made of
  characters of the locale without NUL, newline, ampersand, dollar sign, backquote,
  backslash, quotes and slash, and a file /etc/hosts that is empty or ends with a newline
  and whose lines are made of characters of the locale without NUL.  After the script has
  run for each name of a non-empty list, in order, every loopback line (a line that begins
  with nine characters matching \<open>127.0.1.1\<close>, a dot standing for any character) is
  "127.0.1.1 NAME" for the last name, and there are as many such lines as the file had at
  the start, or one if it had none; so exactly one if it had at most one.  One more run
  with the last name leaves the file as it is.  With a driver that prefixes commands, a
  successful \<open>SetHostname\<close> issues the hostname command and then this script.
\<close>

theorem hosts_script_idempotent:
  fixes e :: "'sw env"
  assumes "glob_matches r = []"
    and "list_all (plain_hostname (host_charset r)) (hs @ [h])"
    and "list_all (clean_text (host_charset r)) (complete_lines f)"
    and "last_partial f = []"
  shows "(\<exists>f1. hosts_scripts r (hs @ [h]) f = Some f1
      \<and> last_partial f1 = []
      \<and> loopback_lines r f1 =
          replicate (max 1 (length (loopback_lines r f))) (''127.0.1.1 '' @ h)
      \<and> (length (loopback_lines r f) \<le> 1 \<longrightarrow> loopback_lines r f1 = [''127.0.1.1 '' @ h])
      \<and> hosts_script r h f1 = Some f1
      \<and> hosts_scripts r (hs @ [h, h]) f = Some f1)
    \<and> ((\<forall>c. SSHSudo e c = pre @ c) \<and> CHR ''%'' \<notin> set pre \<and> SetHostname e h p = (None, p1)
        \<longrightarrow> issued p p1 [hostname_command pre h, hosts_command pre h])"
proof -
  from assms(2) have plain: "list_all (plain_hostname (host_charset r)) hs"
    "plain_hostname (host_charset r) h" by simp_all
  from hosts_scripts_many[OF assms(1) plain(1) assms(3,4)] obtain f0 where
    f0: "hosts_scripts r hs f = Some f0" "last_partial f0 = []"
      "list_all (clean_text (host_charset r)) (complete_lines f0)"
      "length (loopback_lines r f0) =
         (if hs = [] then length (loopback_lines r f) else max 1 (length (loopback_lines r f)))"
    by blast
  from hosts_script_once[OF assms(1) plain(2) f0(3,2)] obtain f1 where
    f1: "hosts_script r h f0 = Some f1" "last_partial f1 = []"
      "loopback_lines r f1 = replicate (max 1 (length (loopback_lines r f0))) (''127.0.1.1 '' @ h)"
      "hosts_script r h f1 = Some f1"
    by blast
  from f0(4) have "max 1 (length (loopback_lines r f0)) = max 1 (length (loopback_lines r f))"
    by (simp add: max_def)
  with f1(3) have lines:
    "loopback_lines r f1 = replicate (max 1 (length (loopback_lines r f))) (''127.0.1.1 '' @ h)"
    by simp
  then have one: "length (loopback_lines r f) \<le> 1 \<longrightarrow> loopback_lines r f1 = [''127.0.1.1 '' @ h]"
    by (simp add: max_def)
  from f0(1) f1(1) have run: "hosts_scripts r (hs @ [h]) f = Some f1"
    by (simp add: hosts_scripts_snoc)
  have "hosts_scripts r (hs @ [h, h]) f = hosts_scripts r ((hs @ [h]) @ [h]) f" by simp
  also have "\<dots> = Some f1"
    unfolding hosts_scripts_snoc[of r "hs @ [h]"] using run f1(4) by simp
  finally have twice: "hosts_scripts r (hs @ [h, h]) f = Some f1" .
  from run f1(2) lines one f1(4) twice SetHostname_commands[of e pre h p p1]
  show ?thesis by blast
qed


theorem hosts_script_idempotent_witness:
  "glob_matches host_UTF8 = []
   \<and> list_all (plain_hostname (host_charset host_UTF8)) ([''host0''] @ [''host1''])
   \<and> list_all (clean_text (host_charset host_UTF8))
        (complete_lines
           \<lparr> complete_lines = [''127.0.0.1 localhost'', ''# caf'' @ [CHR 0xC3, CHR 0xA9]],
             last_partial = [] \<rparr>)
   \<and> length (loopback_lines host_UTF8
        \<lparr> complete_lines = [''127.0.0.1 localhost'', ''# caf'' @ [CHR 0xC3, CHR 0xA9]],
          last_partial = [] \<rparr>) \<le> 1
   \<and> hosts_scripts host_UTF8 ([''host0''] @ [''host1''])
        \<lparr> complete_lines = [''127.0.0.1 localhost'', ''# caf'' @ [CHR 0xC3, CHR 0xA9]],
          last_partial = [] \<rparr> =
      Some \<lparr> complete_lines = [''127.0.0.1 localhost'', ''# caf'' @ [CHR 0xC3, CHR 0xA9],
                                ''127.0.1.1 host1''],
             last_partial = [] \<rparr>
   \<and> loopback_lines host_UTF8
        \<lparr> complete_lines = [''127.0.0.1 localhost'', ''# caf'' @ [CHR 0xC3, CHR 0xA9],
                           ''127.0.1.1 host1''],
          last_partial = [] \<rparr> =
      [''127.0.1.1 host1'']
   \<and> hosts_scripts host_UTF8 ([''host0''] @ [''host1'', ''host1''])
        \<lparr> complete_lines = [''127.0.0.1 localhost'', ''# caf'' @ [CHR 0xC3, CHR 0xA9]],
          last_partial = [] \<rparr> =
      Some \<lparr> complete_lines = [''127.0.0.1 localhost'', ''# caf'' @ [CHR 0xC3, CHR 0xA9],
                                ''127.0.1.1 host1''],
             last_partial = [] \<rparr>
   \<and> (\<forall>c. SSHSudo (test_env no_command) c = ''sudo '' @ c) \<and> CHR ''%'' \<notin> set ''sudo ''
   \<and> SetHostname (test_env no_command) ''host1'' test_provisioner =
       (None, test_provisioner\<lparr>trace := map (OutputWithPty NativeClient) test_hostname_commands\<rparr>)
   \<and> issued test_provisioner
        (test_provisioner\<lparr>trace := map (OutputWithPty NativeClient) test_hostname_commands\<rparr>)
        [hostname_command ''sudo '' ''host1'', hosts_command ''sudo '' ''host1'']"
proof -
  let ?f = "\<lparr> complete_lines = [''127.0.0.1 localhost'', ''# caf'' @ [CHR 0xC3, CHR 0xA9]],
             last_partial = [] \<rparr>"
  let ?f1 = "\<lparr> complete_lines = [''127.0.0.1 localhost'', ''# caf'' @ [CHR 0xC3, CHR 0xA9],
                                 ''127.0.1.1 host1''],
              last_partial = [] \<rparr>"
  let ?p1 = "test_provisioner\<lparr>trace := map (OutputWithPty NativeClient) test_hostname_commands\<rparr>"
  have glob: "glob_matches host_UTF8 = []" by (simp add: host_UTF8_def)
  have plain: "list_all (plain_hostname (host_charset host_UTF8)) ([''host0''] @ [''host1''])"
    by code_simp
  have clean: "list_all (clean_text (host_charset host_UTF8)) (complete_lines ?f)"
    by code_simp
  have newline: "last_partial ?f = []" by simp
  have few: "length (loopback_lines host_UTF8 ?f) \<le> 1" by code_simp
  have run: "hosts_scripts host_UTF8 ([''host0''] @ [''host1'']) ?f = Some ?f1" by code_simp
  have lines: "loopback_lines host_UTF8 ?f1 = [''127.0.1.1 host1'']" by code_simp
  have sudo: "\<forall>c. SSHSudo (test_env no_command) c = ''sudo '' @ c" "CHR ''%'' \<notin> set ''sudo ''"
    by (simp_all add: test_env_def)
  have hostname: "SetHostname (test_env no_command) ''host1'' test_provisioner = (None, ?p1)"
    by code_simp
  note inst = hosts_script_idempotent
               [OF glob plain clean newline, where e = "test_env no_command" and pre = "''sudo ''"
                  and p = test_provisioner and ?p1.0 = ?p1]
  from inst run have twice: "hosts_scripts host_UTF8 ([''host0''] @ [''host1'', ''host1'']) ?f = Some ?f1"
    by auto
  from inst sudo hostname have "issued test_provisioner ?p1
      [hostname_command ''sudo '' ''host1'', hosts_command ''sudo '' ''host1'']"
    by blast
  with glob plain clean few run lines twice sudo hostname show ?thesis by blast
qed

text \<open>
  C6 as stated, for every host name and every starting content, fails, in each of these
  ways.  A file that starts with two loopback lines keeps two.  A file whose last line
  has no newline gets the new entry glued to that line, and then has no loopback line.
  When the working directory holds a file 127.0.1.1.bak, \<open>grep\<close> looks for that name, finds
  no line, and every run appends an entry while the old one stays.  In a UTF-8 locale a
  loopback line with the byte 0xFF is not found by \<open>grep\<close>, so the first run appends, and
  the second run rewrites the part of the old line before that byte.  A host name with an
  ampersand gets the old line pasted into the new one, again on every run.  In a UTF-8
  locale the entry of a host name with the byte 0xFF is not found by \<open>grep\<close> either, and
  every run appends it again.
\<close>

theorem hosts_script_not_idempotent:
  "hosts_scripts host_C [''host1'', ''host1'']
     \<lparr> complete_lines = [''127.0.0.1 localhost'', ''127.0.1.1 old-a'', ''127.0.1.1 old-b''],
       last_partial = [] \<rparr> =
     Some \<lparr> complete_lines = [''127.0.0.1 localhost'', ''127.0.1.1 host1'', ''127.0.1.1 host1''],
            last_partial = [] \<rparr>
   \<and> loopback_lines host_C
       \<lparr> complete_lines = [''127.0.0.1 localhost'', ''127.0.1.1 host1'', ''127.0.1.1 host1''],
         last_partial = [] \<rparr> = [''127.0.1.1 host1'', ''127.0.1.1 host1'']
   \<and> hosts_scripts host_C [''host1'']
       \<lparr> complete_lines = [''127.0.0.1 localhost''], last_partial = ''10.0.0.2 gateway'' \<rparr> =
     Some \<lparr> complete_lines = [''127.0.0.1 localhost'', ''10.0.0.2 gateway127.0.1.1 host1''],
            last_partial = [] \<rparr>
   \<and> loopback_lines host_C
       \<lparr> complete_lines = [''127.0.0.1 localhost'', ''10.0.0.2 gateway127.0.1.1 host1''],
         last_partial = [] \<rparr> = []
   \<and> hosts_scripts (host_C\<lparr>glob_matches := [''127.0.1.1.bak'']\<rparr>) [''host1'', ''host1'']
       \<lparr> complete_lines = [''127.0.0.1 localhost'', ''127.0.1.1 host0''], last_partial = [] \<rparr> =
     Some \<lparr> complete_lines = [''127.0.0.1 localhost'', ''127.0.1.1 host0'', ''127.0.1.1 host1'',
                               ''127.0.1.1 host1''],
            last_partial = [] \<rparr>
   \<and> hosts_scripts host_UTF8 [''host1'']
       \<lparr> complete_lines = [''127.0.0.1 localhost'', ''127.0.1.1 old'' @ [CHR 0xFF] @ ''x''],
         last_partial = [] \<rparr> =
     Some \<lparr> complete_lines = [''127.0.0.1 localhost'', ''127.0.1.1 old'' @ [CHR 0xFF] @ ''x'',
                               ''127.0.1.1 host1''],
            last_partial = [] \<rparr>
   \<and> hosts_scripts host_UTF8 [''host1'', ''host1'']
       \<lparr> complete_lines = [''127.0.0.1 localhost'', ''127.0.1.1 old'' @ [CHR 0xFF] @ ''x''],
         last_partial = [] \<rparr> =
     Some \<lparr> complete_lines = [''127.0.0.1 localhost'', ''127.0.1.1 host1'' @ [CHR 0xFF] @ ''x'',
                               ''127.0.1.1 host1''],
            last_partial = [] \<rparr>
   \<and> hosts_scripts host_C [''a&true'']
       \<lparr> complete_lines = [''127.0.1.1 old''], last_partial = [] \<rparr> =
     Some \<lparr> complete_lines = [''127.0.1.1 a127.0.1.1 oldtrue''], last_partial = [] \<rparr>
   \<and> hosts_scripts host_C [''a&true'', ''a&true'']
       \<lparr> complete_lines = [''127.0.1.1 old''], last_partial = [] \<rparr> =
     Some \<lparr> complete_lines = [''127.0.1.1 a127.0.1.1 a127.0.1.1 oldtruetrue''],
            last_partial = [] \<rparr>
   \<and> hosts_scripts host_UTF8 [''h'' @ [CHR 0xFF], ''h'' @ [CHR 0xFF]]
       \<lparr> complete_lines = [''127.0.0.1 localhost''], last_partial = [] \<rparr> =
     Some \<lparr> complete_lines = [''127.0.0.1 localhost'', ''127.0.1.1 h'' @ [CHR 0xFF],
                               ''127.0.1.1 h'' @ [CHR 0xFF]],
            last_partial = [] \<rparr>"
  by code_simp

end
